theory Spec2Isabelle
  imports Complex_Main "HOL-Library.Char_ord" "HOL-Library.List_Lexorder"
begin

section \<open>Tables: cells, rows, frames\<close>

text \<open>
  The scripts work on one pandas DataFrame. A frame is modelled row by row: the list of
  its column names and, per sample, the value of every column. A cell is what
  \<^verbatim>\<open>read_csv\<close> and the scripts put into a column: a float, the missing value NaN, a
  boolean, or text. Floats are modelled as real numbers; the scripts only compare them,
  add them and halve them (for the median), and every property proved below rests on
  the order of the values only.

  Text holds the bytes of the UTF-8 encoding, so the labels with diacritics of the
  source are written with their two-byte sequences.
\<close>

datatype cell = Num real | NaN | Flag bool | Txt string

datatype error = KeyError string | TypeError | ValueError | OtherError

type_synonym row = "string \<Rightarrow> cell"

record frame =
  columns :: "string list"
  rows :: "row list"

text \<open>A row given by its named cells; used to write concrete frames.\<close>

definition row_of :: "(string \<times> cell) list \<Rightarrow> row" where
  "row_of al = (\<lambda>c. case map_of al c of None \<Rightarrow> NaN | Some v \<Rightarrow> v)"

text \<open>\<^verbatim>\<open>df[c]\<close> as a Series, where the source has checked that the column exists.\<close>

definition column :: "frame \<Rightarrow> string \<Rightarrow> cell list" where
  "column df c = map (\<lambda>r. r c) (rows df)"

text \<open>\<^verbatim>\<open>df[c]\<close> where nothing has checked the column: pandas raises KeyError.\<close>

definition column_of :: "frame \<Rightarrow> string \<Rightarrow> error + cell list" where
  "column_of df c = (if c \<in> set (columns df) then Inr (column df c) else Inl (KeyError c))"

text \<open>
  \<^verbatim>\<open>df[c] = series\<close>: an existing column is replaced in place, a new one is appended.
  The series always comes from the frame itself, so it has one value per row.
\<close>

definition add_column :: "string \<Rightarrow> string list \<Rightarrow> string list" where
  "add_column c cs = (if c \<in> set cs then cs else cs @ [c])"

definition put_column :: "string \<Rightarrow> cell list \<Rightarrow> frame \<Rightarrow> frame" where
  "put_column c vs df =
     \<lparr>columns = add_column c (columns df),
      rows = map (\<lambda>(r, v). r(c := v)) (zip (rows df) vs)\<rparr>"

text \<open>\<^verbatim>\<open>df.drop(columns=[c])\<close> for a column that exists.\<close>

definition drop_column :: "string \<Rightarrow> frame \<Rightarrow> frame" where
  "drop_column c df = df\<lparr>columns := removeAll c (columns df)\<rparr>"

text \<open>Running a partial operation over a Series: the first failure is the exception raised.\<close>

fun traverse :: "('a \<Rightarrow> error + 'b) \<Rightarrow> 'a list \<Rightarrow> error + 'b list" where
  "traverse f [] = Inr []"
| "traverse f (x # xs) =
     (case f x of
        Inl e \<Rightarrow> Inl e
      | Inr y \<Rightarrow> (case traverse f xs of Inl e \<Rightarrow> Inl e | Inr ys \<Rightarrow> Inr (y # ys)))"

text \<open>
  The numeric reading of a cell: a boolean counts as 0 or 1, NaN is missing (\<open>None\<close>),
  and arithmetic or comparison with text raises TypeError.
\<close>

fun as_float :: "cell \<Rightarrow> error + real option" where
  "as_float (Num x) = Inr (Some x)"
| "as_float NaN = Inr None"
| "as_float (Flag b) = Inr (Some (if b then 1 else 0))"
| "as_float (Txt s) = Inl TypeError"

text \<open>
  A column is numeric when none of its cells is text: this is what \<^verbatim>\<open>read_csv\<close> gives
  for a column of numbers, with or without missing values.
\<close>

fun is_texto :: "cell \<Rightarrow> bool" where
  "is_texto (Txt s) = True"
| "is_texto _ = False"

definition colunas_numericas :: "frame \<Rightarrow> string list \<Rightarrow> bool" where
  "colunas_numericas df cols =
     list_all (\<lambda>r. list_all (\<lambda>c. \<not> is_texto (r c)) cols) (rows df)"

text \<open>\<^verbatim>\<open>x > k\<close> for one value: any comparison with NaN is False.\<close>

definition gt_scalar :: "real \<Rightarrow> cell \<Rightarrow> error + bool" where
  "gt_scalar k c =
     (case as_float c of
        Inl e \<Rightarrow> Inl e
      | Inr None \<Rightarrow> Inr False
      | Inr (Some x) \<Rightarrow> Inr (k < x))"

text \<open>\<^verbatim>\<open>series > k\<close>, a boolean Series.\<close>

definition series_gt :: "cell list \<Rightarrow> real \<Rightarrow> error + cell list" where
  "series_gt s k =
     (case traverse (gt_scalar k) s of Inl e \<Rightarrow> Inl e | Inr bs \<Rightarrow> Inr (map Flag bs))"

text \<open>\<^verbatim>\<open>a & b\<close> on two Series of one frame: defined on booleans, TypeError otherwise.\<close>

fun and_cell :: "cell \<times> cell \<Rightarrow> error + cell" where
  "and_cell (Flag a, Flag b) = Inr (Flag (a \<and> b))"
| "and_cell _ = Inl TypeError"

definition series_and :: "cell list \<Rightarrow> cell list \<Rightarrow> error + cell list" where
  "series_and a b = traverse and_cell (zip a b)"

text \<open>\<^verbatim>\<open>np.where(cond, a, b)\<close> with two text labels; the condition is read by truthiness.\<close>

fun truthy :: "cell \<Rightarrow> bool" where
  "truthy (Flag b) = b"
| "truthy (Num x) = (x \<noteq> 0)"
| "truthy NaN = True"
| "truthy (Txt s) = (s \<noteq> [])"

definition np_where :: "cell list \<Rightarrow> string \<Rightarrow> string \<Rightarrow> cell list" where
  "np_where cond a b = map (\<lambda>c. Txt (if truthy c then a else b)) cond"

text \<open>A sequence of statements, each of which may raise.\<close>

fun run :: "(frame \<Rightarrow> error + frame) list \<Rightarrow> frame \<Rightarrow> error + frame" where
  "run [] df = Inr df"
| "run (s # ss) df = (case s df of Inl e \<Rightarrow> Inl e | Inr df' \<Rightarrow> run ss df')"

section \<open>Binary expression state\<close>

definition expresso :: "string \<Rightarrow> string" where
  "expresso gene = gene @ ''_expresso''"

text \<open>\<^verbatim>\<open>df[f'{gene}_expresso'] = df[gene] > 0\<close>, for a gene whose column exists.\<close>

definition marcar_expresso :: "string \<Rightarrow> frame \<Rightarrow> error + frame" where
  "marcar_expresso gene df =
     (case series_gt (column df gene) 0 of
        Inl e \<Rightarrow> Inl e
      | Inr s \<Rightarrow> Inr (put_column (expresso gene) s df))"

subsection \<open>The script s2 mamanalysis geneseos\<close>

definition genes_of_interest :: "string list" where
  "genes_of_interest = [''PRG2'', ''EPX'', ''CLC'', ''IL5RA'']"

definition genes_presentes :: "frame \<Rightarrow> string list" where
  "genes_presentes df = filter (\<lambda>gene. gene \<in> set (columns df)) genes_of_interest"

text \<open>The loop that fills \<^verbatim>\<open>binary_cols\<close>: one boolean column per gene present.\<close>

fun binary_cols :: "string list \<Rightarrow> frame \<Rightarrow> error + frame" where
  "binary_cols [] df = Inr df"
| "binary_cols (gene # genes) df =
     (case marcar_expresso gene df of
        Inl e \<Rightarrow> Inl e
      | Inr df' \<Rightarrow> binary_cols genes df')"

text \<open>
  The script up to the definition of the binary columns: it exits (\<open>None\<close>) when none of
  the genes is a column of the table.
\<close>

definition grupos_de_expressao :: "frame \<Rightarrow> error + frame option" where
  "grupos_de_expressao df =
     (if genes_presentes df = [] then Inr None
      else (case binary_cols (genes_presentes df) df of
              Inl e \<Rightarrow> Inl e
            | Inr df' \<Rightarrow> Inr (Some df')))"

subsection \<open>The script s3 mamanalysis survival: definir grupos comparacao\<close>

definition GENES_INTERESSE :: "string list" where
  "GENES_INTERESSE = [''PRG2'', ''EPX'', ''CLC'', ''IL5RA'']"

text \<open>
  Step 1 of the function, for any list of genes: the loop returns \<open>None\<close> at the first
  gene that is not a column.
\<close>

fun colunas_expresso :: "string list \<Rightarrow> frame \<Rightarrow> error + frame option" where
  "colunas_expresso [] df = Inr (Some df)"
| "colunas_expresso (gene # genes) df =
     (if gene \<in> set (columns df) then
        (case marcar_expresso gene df of
           Inl e \<Rightarrow> Inl e
         | Inr df' \<Rightarrow> colunas_expresso genes df')
      else Inr None)"

text \<open>The conjunction of the boolean columns named, left to right.\<close>

fun todos_expressos :: "frame \<Rightarrow> cell list \<Rightarrow> string list \<Rightarrow> error + cell list" where
  "todos_expressos df acc [] = Inr acc"
| "todos_expressos df acc (c # cs) =
     (case column_of df c of
        Inl e \<Rightarrow> Inl e
      | Inr s \<Rightarrow> (case series_and acc s of
                    Inl e \<Rightarrow> Inl e
                  | Inr acc' \<Rightarrow> todos_expressos df acc' cs))"

definition g_all :: "frame \<Rightarrow> string list \<Rightarrow> error + cell list" where
  "g_all df cs =
     (case cs of
        [] \<Rightarrow> Inr []
      | c # cs' \<Rightarrow> (case column_of df c of
                      Inl e \<Rightarrow> Inl e
                    | Inr s \<Rightarrow> todos_expressos df s cs'))"

text \<open>\<^verbatim>\<open>df[name] = np.where(df[col], a, b)\<close>.\<close>

definition grupo_vs_nao :: "string \<Rightarrow> string \<Rightarrow> string \<Rightarrow> string \<Rightarrow> frame \<Rightarrow> error + frame" where
  "grupo_vs_nao name col a b df =
     (case column_of df col of
        Inl e \<Rightarrow> Inl e
      | Inr s \<Rightarrow> Inr (put_column name (np_where s a b) df))"

definition Nao_Expressa :: "string \<Rightarrow> string" where
  "Nao_Expressa gene = ''N'' @ [CHR 0xC3, CHR 0xA3] @ ''o Expressa '' @ gene"

definition Expressa :: "string \<Rightarrow> string" where
  "Expressa gene = ''Expressa '' @ gene"

definition definir_grupos_comparacao :: "frame \<Rightarrow> error + frame option" where
  "definir_grupos_comparacao df =
     (case colunas_expresso GENES_INTERESSE df of
        Inl e \<Rightarrow> Inl e
      | Inr None \<Rightarrow> Inr None
      | Inr (Some df1) \<Rightarrow>
          (case g_all df1 [''PRG2_expresso'', ''EPX_expresso'', ''CLC_expresso'', ''IL5RA_expresso''] of
             Inl e \<Rightarrow> Inl e
           | Inr g_4_all \<Rightarrow>
               (case run
                  [grupo_vs_nao ''grupo_PRG2_vs_Nao'' ''PRG2_expresso''
                     (Expressa ''PRG2'') (Nao_Expressa ''PRG2''),
                   grupo_vs_nao ''grupo_CLC_vs_Nao'' ''CLC_expresso''
                     (Expressa ''CLC'') (Nao_Expressa ''CLC''),
                   grupo_vs_nao ''grupo_IL5RA_vs_Nao'' ''IL5RA_expresso''
                     (Expressa ''IL5RA'') (Nao_Expressa ''IL5RA''),
                   grupo_vs_nao ''grupo_EPX_vs_Nao'' ''EPX_expresso''
                     (Expressa ''EPX'') (Nao_Expressa ''EPX'')]
                  (put_column ''grupo_4_vs_outros''
                     (np_where g_4_all ''CLC_EPX_IL5RA_PRG2'' ''Demais'') df1) of
                  Inl e \<Rightarrow> Inl e
                | Inr df2 \<Rightarrow> Inr (Some df2))))"

subsection \<open>The script s3 mamanalysis manutencao: definir grupos comparacao\<close>

text \<open>
  The same function in the script for the genes IL5, IL33, IL25 and TSLP. Its loop makes
  the boolean columns of these four genes; the conjunction and the first single-gene
  comparison then read the column \<^verbatim>\<open>IL5RA_expresso\<close>.
\<close>

definition GENES_INTERESSE_manutencao :: "string list" where
  "GENES_INTERESSE_manutencao = [''IL5'', ''IL33'', ''IL25'', ''TSLP'']"

definition definir_grupos_comparacao_manutencao :: "frame \<Rightarrow> error + frame option" where
  "definir_grupos_comparacao_manutencao df =
     (case colunas_expresso GENES_INTERESSE_manutencao df of
        Inl e \<Rightarrow> Inl e
      | Inr None \<Rightarrow> Inr None
      | Inr (Some df1) \<Rightarrow>
          (case g_all df1 [''IL5RA_expresso'', ''IL33_expresso'', ''IL25_expresso'', ''TSLP_expresso''] of
             Inl e \<Rightarrow> Inl e
           | Inr g_4_all \<Rightarrow>
               (case run
                  [grupo_vs_nao ''grupo_IL5RA_vs_Nao'' ''IL5RA_expresso''
                     (Expressa ''IL5RA'') (Nao_Expressa ''IL5RA''),
                   grupo_vs_nao ''grupo_IL33_vs_Nao'' ''IL33_expresso''
                     (Expressa ''IL33'') (Nao_Expressa ''IL33''),
                   grupo_vs_nao ''grupo_IL25_vs_Nao'' ''IL25_expresso''
                     (Expressa ''IL25'') (Nao_Expressa ''IL25''),
                   grupo_vs_nao ''grupo_TSLP_vs_Nao'' ''TSLP_expresso''
                     (Expressa ''TSLP'') (Nao_Expressa ''TSLP'')]
                  (put_column ''grupo_4_genes_vs_outros''
                     (np_where g_4_all ''IL5RA_IL33_IL25_TSLP'' ''Demais'') df1) of
                  Inl e \<Rightarrow> Inl e
                | Inr df2 \<Rightarrow> Inr (Some df2))))"

section \<open>Median split of the summed expression\<close>

text \<open>What the scripts print, as far as the properties below speak of it.\<close>

datatype msg =
    Erro_nenhum_gene "string list"
  | Aviso_excluidas string nat
  | Aviso_dados_insuficientes
  | Erro_teste_estatistico error
  | Erro_colunas_ausentes "string list"
  | Erro_falha_grupos

definition Alta_Expressao :: string where
  "Alta_Expressao = ''Alta Express'' @ [CHR 0xC3, CHR 0xA3] @ ''o''"

definition Baixa_Expressao :: string where
  "Baixa_Expressao = ''Baixa Express'' @ [CHR 0xC3, CHR 0xA3] @ ''o''"

definition Excluido :: string where
  "Excluido = ''Exclu'' @ [CHR 0xC3, CHR 0xAD] @ ''do''"


text \<open>
  The median of the values present: the middle one of the sorted values, or the mean of
  the two middle ones; NaN (\<open>None\<close>) when there is no value.
\<close>

definition median :: "real list \<Rightarrow> real option" where
  "median xs =
     (if xs = [] then None
      else let s = sort xs; n = length xs in
        Some (if odd n then s ! (n div 2) else (s ! (n div 2 - 1) + s ! (n div 2)) / 2))"

definition series_median :: "cell list \<Rightarrow> error + real option" where
  "series_median s =
     (case traverse as_float s of
        Inl e \<Rightarrow> Inl e
      | Inr vs \<Rightarrow> Inr (median (List.map_filter (\<lambda>v. v) vs)))"

text \<open>Comparisons of one value with the median; with NaN on either side they are False.\<close>

definition cmp_median :: "(real \<Rightarrow> real \<Rightarrow> bool) \<Rightarrow> real option \<Rightarrow> cell \<Rightarrow> error + bool" where
  "cmp_median rel m c =
     (case as_float c of
        Inl e \<Rightarrow> Inl e
      | Inr None \<Rightarrow> Inr False
      | Inr (Some x) \<Rightarrow> Inr (case m of None \<Rightarrow> False | Some y \<Rightarrow> rel x y))"

text \<open>\<^verbatim>\<open>df.loc[mask, c] = v\<close>.\<close>

definition loc_assign :: "bool list \<Rightarrow> string \<Rightarrow> cell \<Rightarrow> frame \<Rightarrow> frame" where
  "loc_assign sel c v df =
     df\<lparr>rows := map (\<lambda>(r, b). if b then r(c := v) else r) (zip (rows df) sel)\<rparr>"

subsection \<open>The script survival manut IL5: create survival groups, strict cut\<close>



subsection \<open>The scripts survival presence CLC and survival recruit CCL24: inclusive cut\<close>

text \<open>
  \<^verbatim>\<open>df['sum_expression'].apply(lambda x: 'Alta' if x >= median else 'Baixa')\<close>.
\<close>

definition rotular :: "real option \<Rightarrow> cell list \<Rightarrow> error + cell list" where
  "rotular median_expression s =
     (case traverse (cmp_median (\<lambda>x y. y \<le> x) median_expression) s of
        Inl e \<Rightarrow> Inl e
      | Inr bs \<Rightarrow> Inr (map (\<lambda>b. Txt (if b then Alta_Expressao else Baixa_Expressao)) bs))"



section \<open>Statistical comparisons\<close>

text \<open>
  The tests themselves are library code (lifelines, scipy). A call is recorded with its
  arguments; the library is a parameter that gives the p-value of a call or raises.
\<close>

datatype chamada =
    Logrank_test "cell list" "cell list" "cell list" "cell list"
  | Multivariate_logrank_test "cell list" "cell list" "cell list"
  | Chi2_contingency "nat list list"

type_synonym biblioteca = "chamada \<Rightarrow> error + real"

text \<open>
  What a plotting function decides before it draws: to return at once for lack of data,
  to draw without a test, or to draw with the result of one call.
\<close>

datatype plano = Dados_insuficientes | Sem_teste | Teste chamada

text \<open>\<^verbatim>\<open>series[mask]\<close>: the values at the positions where the mask is True.\<close>

definition selecionar :: "'a list \<Rightarrow> bool list \<Rightarrow> 'a list" where
  "selecionar xs bs = map fst (filter snd (zip xs bs))"

text \<open>\<^verbatim>\<open>df.dropna(subset=cols)\<close>: KeyError for a column that does not exist.\<close>

definition dropna :: "string list \<Rightarrow> frame \<Rightarrow> error + frame" where
  "dropna cols df =
     (case filter (\<lambda>c. c \<notin> set (columns df)) cols of
        c # _ \<Rightarrow> Inl (KeyError c)
      | [] \<Rightarrow> Inr (df\<lparr>rows := filter (\<lambda>r. \<forall>c\<in>set cols. r c \<noteq> NaN) (rows df)\<rparr>))"

text \<open>\<^verbatim>\<open>df[df[c] != v]\<close>.\<close>

definition manter_diferentes :: "string \<Rightarrow> cell \<Rightarrow> frame \<Rightarrow> frame" where
  "manter_diferentes c v df = df\<lparr>rows := filter (\<lambda>r. r c \<noteq> v) (rows df)\<rparr>"

text \<open>\<^verbatim>\<open>series.nunique()\<close>: the number of distinct values, NaN not counted.\<close>

definition nunique :: "cell list \<Rightarrow> nat" where
  "nunique s = length (remdups (filter (\<lambda>c. c \<noteq> NaN) s))"

text \<open>
  The sorted distinct labels of a column of labels. The group and subtype columns hold
  text (they come from \<^verbatim>\<open>np.where\<close> with two strings, or from the clinical table);
  a cell of another kind in them is outside the model and is reported as TypeError.
\<close>

definition texto :: "cell \<Rightarrow> error + string" where
  "texto c = (case c of Txt s \<Rightarrow> Inr s | _ \<Rightarrow> Inl TypeError)"

definition rotulos_ordenados :: "cell list \<Rightarrow> error + string list" where
  "rotulos_ordenados s =
     (case traverse texto s of Inl e \<Rightarrow> Inl e | Inr ls \<Rightarrow> Inr (sort (remdups ls)))"

subsection \<open>The script survival presence CLC: plot survival\<close>



subsection \<open>The script s3 mamanalysis survival: plotar sobrevida, plotar pam50, main\<close>

definition COL_TEMPO :: string where "COL_TEMPO = ''OS_Time_nature2012''"
definition COL_EVENTO :: string where "COL_EVENTO = ''OS_event_nature2012''"
definition COL_PAM50 :: string where "COL_PAM50 = ''PAM50Call_RNAseq''"

text \<open>\<^verbatim>\<open>df_plot[COL_TEMPO] / 30.44\<close>, days to months.\<close>

definition em_meses :: "cell \<Rightarrow> error + cell" where
  "em_meses c =
     (case as_float c of
        Inl e \<Rightarrow> Inl e
      | Inr None \<Rightarrow> Inr NaN
      | Inr (Some x) \<Rightarrow> Inr (Num (x / (3044 / 100))))"

text \<open>
  The function up to the choice of the test: the rows with time, event and group present,
  the guard on the number of groups, and the test for two or for more groups.
\<close>

definition plano_sobrevida :: "frame \<Rightarrow> string \<Rightarrow> error + plano" where
  "plano_sobrevida df_dados coluna_grupo =
     (case dropna [COL_TEMPO, COL_EVENTO, coluna_grupo] df_dados of
        Inl e \<Rightarrow> Inl e
      | Inr df0 \<Rightarrow>
         (let df_plot = manter_diferentes coluna_grupo (Txt ''Ignorar'') df0 in
          if rows df_plot = [] \<or> nunique (column df_plot coluna_grupo) < 2
          then Inr Dados_insuficientes
          else
            (case traverse em_meses (column df_plot COL_TEMPO) of
               Inl e \<Rightarrow> Inl e
             | Inr T \<Rightarrow>
                (let E = column df_plot COL_EVENTO;
                     grupos = column df_plot coluna_grupo
                 in case rotulos_ordenados grupos of
                      Inl e \<Rightarrow> Inl e
                    | Inr grupos_unicos \<Rightarrow>
                       if length grupos_unicos = 2 then
                         (let idx_A = map (\<lambda>c. c = Txt (grupos_unicos ! 0)) grupos;
                              idx_B = map (\<lambda>c. c = Txt (grupos_unicos ! 1)) grupos
                          in Inr (Teste (Logrank_test (selecionar T idx_A) (selecionar T idx_B)
                                           (selecionar E idx_A) (selecionar E idx_B))))
                       else if 2 < length grupos_unicos then
                         Inr (Teste (Multivariate_logrank_test T grupos E))
                       else Inr Sem_teste))))"


text \<open>
  The p-value written on the figure: 0.99 unless the test gives one; any exception of the
  test is caught and printed. \<open>None\<close> is the early return, with no figure.
\<close>

definition plotar_sobrevida ::
  "biblioteca \<Rightarrow> frame \<Rightarrow> string \<Rightarrow> error + (real option \<times> msg list)" where
  "plotar_sobrevida lib df_dados coluna_grupo =
     (case plano_sobrevida df_dados coluna_grupo of
        Inl e \<Rightarrow> Inl e
      | Inr Dados_insuficientes \<Rightarrow> Inr (None, [Aviso_dados_insuficientes])
      | Inr Sem_teste \<Rightarrow> Inr (Some (99 / 100), [])
      | Inr (Teste c) \<Rightarrow>
         (case lib c of
            Inl e \<Rightarrow> Inr (Some (99 / 100), [Erro_teste_estatistico e])
          | Inr p_valor \<Rightarrow> Inr (Some p_valor, [])))"

text \<open>\<^verbatim>\<open>pd.crosstab(a, b)\<close>: the counts of the pairs, rows and columns sorted by label.\<close>

definition crosstab :: "cell list \<Rightarrow> cell list \<Rightarrow> error + nat list list" where
  "crosstab a b =
     (case rotulos_ordenados a of
        Inl e \<Rightarrow> Inl e
      | Inr linhas \<Rightarrow>
         (case rotulos_ordenados b of
            Inl e \<Rightarrow> Inl e
          | Inr colunas \<Rightarrow>
             Inr (map (\<lambda>l. map (\<lambda>c. length (filter (\<lambda>p. p = (Txt l, Txt c)) (zip a b))) colunas)
                    linhas)))"

definition plano_pam50 :: "frame \<Rightarrow> string \<Rightarrow> error + plano" where
  "plano_pam50 df_dados coluna_grupo =
     (case dropna [COL_PAM50, coluna_grupo] df_dados of
        Inl e \<Rightarrow> Inl e
      | Inr df0 \<Rightarrow>
         (let df1 = manter_diferentes coluna_grupo (Txt ''Ignorar'') df0;
              df_plot = (if Txt ''Normal'' \<in> set (column df1 COL_PAM50)
                         then manter_diferentes COL_PAM50 (Txt ''Normal'') df1 else df1)
          in if rows df_plot = [] \<or> nunique (column df_plot COL_PAM50) < 2
             then Inr Dados_insuficientes
             else
               (case crosstab (column df_plot coluna_grupo) (column df_plot COL_PAM50) of
                  Inl e \<Rightarrow> Inl e
                | Inr df_cross \<Rightarrow> Inr (Teste (Chi2_contingency df_cross)))))"

text \<open>
  The p-value written on the figure: 0.99 unless the test gives one. Only a ValueError of
  the test is caught and printed; another exception leaves the function.
\<close>

definition plotar_pam50 ::
  "biblioteca \<Rightarrow> frame \<Rightarrow> string \<Rightarrow> error + (real option \<times> msg list)" where
  "plotar_pam50 lib df_dados coluna_grupo =
     (case plano_pam50 df_dados coluna_grupo of
        Inl e \<Rightarrow> Inl e
      | Inr Dados_insuficientes \<Rightarrow> Inr (None, [Aviso_dados_insuficientes])
      | Inr Sem_teste \<Rightarrow> Inr (Some (99 / 100), [])
      | Inr (Teste c) \<Rightarrow>
         (case lib c of
            Inl ValueError \<Rightarrow> Inr (Some (99 / 100), [Erro_teste_estatistico ValueError])
          | Inl e \<Rightarrow> Inl e
          | Inr p_valor \<Rightarrow> Inr (Some p_valor, [])))"

text \<open>
  \<^verbatim>\<open>main\<close>, from the loaded table on: the figures made, each with the group column
  and the p-value written on it, and what is printed.
\<close>

datatype grafico = Sobrevida string "real option" | PAM50 string "real option"

definition grupos_para_plotar :: "string list" where
  "grupos_para_plotar =
     [''grupo_4_vs_outros'', ''grupo_PRG2_vs_Nao'', ''grupo_CLC_vs_Nao'',
      ''grupo_IL5RA_vs_Nao'', ''grupo_EPX_vs_Nao'']"

fun plotar_todos ::
  "(string \<Rightarrow> real option \<Rightarrow> grafico) \<Rightarrow> (string \<Rightarrow> error + (real option \<times> msg list)) \<Rightarrow>
   string list \<Rightarrow> error + (grafico list \<times> msg list)" where
  "plotar_todos tipo plotar [] = Inr ([], [])"
| "plotar_todos tipo plotar (c # cs) =
     (case plotar c of
        Inl e \<Rightarrow> Inl e
      | Inr (p, ms) \<Rightarrow>
         (case plotar_todos tipo plotar cs of
            Inl e \<Rightarrow> Inl e
          | Inr (gs, ms') \<Rightarrow> Inr (tipo c p # gs, ms @ ms')))"

definition main :: "biblioteca \<Rightarrow> frame \<Rightarrow> error + (grafico list \<times> msg list)" where
  "main lib df_merged =
     (let colunas_essenciais = GENES_INTERESSE @ [COL_TEMPO, COL_EVENTO, COL_PAM50];
          colunas_faltando = filter (\<lambda>col. col \<notin> set (columns df_merged)) colunas_essenciais
      in if colunas_faltando \<noteq> [] then Inr ([], [Erro_colunas_ausentes colunas_faltando])
         else
           (case definir_grupos_comparacao df_merged of
              Inl e \<Rightarrow> Inl e
            | Inr None \<Rightarrow> Inr ([], [Erro_falha_grupos])
            | Inr (Some df) \<Rightarrow>
               (case plotar_todos Sobrevida (plotar_sobrevida lib df) grupos_para_plotar of
                  Inl e \<Rightarrow> Inl e
                | Inr (gs, ms) \<Rightarrow>
                   (case plotar_todos PAM50 (plotar_pam50 lib df) grupos_para_plotar of
                      Inl e \<Rightarrow> Inl e
                    | Inr (gs', ms') \<Rightarrow> Inr (gs @ gs', ms @ ms')))))"

subsection \<open>The script s2 mamanalysis geneseos: Cox regression of one gene within one group\<close>

text \<open>
  The fit is library code (lifelines): a parameter that gives the summary of the fitted
  model for the gene or raises. The confidence interval is kept as its two bounds; the
  source formats them with two decimals.
\<close>

record cox_summary =
  p_cox :: real
  exp_coef :: real
  exp_coef_lower_95 :: real
  exp_coef_upper_95 :: real

type_synonym cox_fitter = "frame \<Rightarrow> string \<Rightarrow> error + cox_summary"

datatype hr_ic = Intervalo real real | Erro_do_ajuste error | Dados_insuficientes_cox

record linha =
  grupo_expressao :: string
  gene_analisado :: string
  valor :: "real option"
  hazard_ratio :: "real option"
  hr_ic_95 :: hr_ic

definition col_tempo :: string where "col_tempo = ''OS_Time_nature2012''"
definition col_evento :: string where "col_evento = ''OS_event_nature2012''"

text \<open>\<^verbatim>\<open>series.sum()\<close>: missing values are skipped.\<close>

fun series_sum :: "cell list \<Rightarrow> error + real" where
  "series_sum [] = Inr 0"
| "series_sum (c # cs) =
     (case as_float c of
        Inl e \<Rightarrow> Inl e
      | Inr v \<Rightarrow> (case series_sum cs of
                    Inl e \<Rightarrow> Inl e
                  | Inr s \<Rightarrow> Inr ((case v of None \<Rightarrow> 0 | Some x \<Rightarrow> x) + s)))"

text \<open>The rows of \<^verbatim>\<open>group_df[[col_tempo, col_evento, gene]].dropna()\<close>.\<close>

definition linhas_cox :: "frame \<Rightarrow> string \<Rightarrow> row list" where
  "linhas_cox group_df gene =
     [r\<leftarrow>rows group_df. r col_tempo \<noteq> NaN \<and> r col_evento \<noteq> NaN \<and> r gene \<noteq> NaN]"

text \<open>
  The body of the loop for one group and one gene: the row appended to
  \<^verbatim>\<open>results_continua\<close>, or nothing when the table has no survival columns.
\<close>

definition linha_cox :: "cox_fitter \<Rightarrow> frame \<Rightarrow> string \<Rightarrow> string \<Rightarrow> error + linha option" where
  "linha_cox cph group_df group_name gene =
     (if col_tempo \<in> set (columns group_df) \<and> col_evento \<in> set (columns group_df) then
        (if gene \<notin> set (columns group_df) then Inl (KeyError gene)
         else
           (let df_cox = \<lparr>columns = [col_tempo, col_evento, gene],
                          rows = linhas_cox group_df gene\<rparr>;
                insuficiente = \<lparr>grupo_expressao = group_name, gene_analisado = gene,
                                 valor = None, hazard_ratio = None,
                                 hr_ic_95 = Dados_insuficientes_cox\<rparr>
            in if 10 < length (rows df_cox) then
                 (case series_sum (column df_cox col_evento) of
                    Inl e \<Rightarrow> Inl e
                  | Inr eventos \<Rightarrow>
                     if 1 < eventos then
                       (case cph df_cox gene of
                          Inl e \<Rightarrow>
                            Inr (Some \<lparr>grupo_expressao = group_name, gene_analisado = gene,
                                       valor = None, hazard_ratio = None,
                                       hr_ic_95 = Erro_do_ajuste e\<rparr>)
                        | Inr summary \<Rightarrow>
                            Inr (Some \<lparr>grupo_expressao = group_name, gene_analisado = gene,
                                       valor = Some (p_cox summary),
                                       hazard_ratio = Some (exp_coef summary),
                                       hr_ic_95 = Intervalo (exp_coef_lower_95 summary)
                                                    (exp_coef_upper_95 summary)\<rparr>))
                     else Inr (Some insuficiente))
               else Inr (Some insuficiente)))
      else Inr None)"

section \<open>Wilson margin of a proportion, in exact arithmetic\<close>

text \<open>
  \<^verbatim>\<open>calcular_intervalo_confianca_wilson\<close> of \<^verbatim>\<open>sample_type_plotandexcel.py\<close> computes in
  double precision. The definition below is the same formula over the real numbers, with
  the quantile function \<^verbatim>\<open>norm.ppf\<close> of scipy as a parameter. It says what the formula
  gives without rounding; it does not say what the doubles give, where a difference of two
  nearly equal terms can come out as a tiny negative number.
\<close>

definition calcular_intervalo_confianca_wilson ::
  "(real \<Rightarrow> real) \<Rightarrow> nat \<Rightarrow> nat \<Rightarrow> real \<Rightarrow> real" where
  "calcular_intervalo_confianca_wilson ppf k n nivel_confianca =
     (if n = 0 then 0
      else
        (let alfa = 1 - nivel_confianca;
             z = ppf (1 - alfa / 2);
             p = real k / real n;
             termo1 = p + (z * z) / (2 * real n);
             termo2 = z * sqrt (p * (1 - p) / real n + (z * z) / (4 * real n * real n));
             denominador = 1 + (z * z) / real n;
             lower_bound = (termo1 - termo2) / denominador
         in p - lower_bound))"

section \<open>Sample data\<close>

text \<open>Three samples with the columns the scripts expect, and the frames the scripts make of them.\<close>

definition amostras :: frame where
  "amostras =
     \<lparr>columns = [''PRG2'', ''EPX'', ''CLC'', ''IL5RA'', ''OS_Time_nature2012'',
                 ''OS_event_nature2012'', ''PAM50Call_RNAseq''],
      rows =
        [row_of [(''PRG2'', Num 0), (''EPX'', Num 2), (''CLC'', Num 0), (''IL5RA'', Num 1),
                 (''OS_Time_nature2012'', Num 300), (''OS_event_nature2012'', Num 1),
                 (''PAM50Call_RNAseq'', Txt ''LumA'')],
         row_of [(''PRG2'', Num 3), (''EPX'', Num 5), (''CLC'', Num 7), (''IL5RA'', Num 1),
                 (''OS_Time_nature2012'', Num 1200), (''OS_event_nature2012'', Num 0),
                 (''PAM50Call_RNAseq'', Txt ''Basal'')],
         row_of [(''PRG2'', Num 1), (''EPX'', NaN), (''CLC'', Num 4), (''IL5RA'', Num 0),
                 (''OS_Time_nature2012'', Num 800), (''OS_event_nature2012'', Num 0),
                 (''PAM50Call_RNAseq'', Txt ''LumB'')]]\<rparr>"

definition out_frame :: "error + frame option \<Rightarrow> frame" where
  "out_frame r = (case r of Inr (Some d) \<Rightarrow> d | _ \<Rightarrow> \<lparr>columns = [], rows = []\<rparr>)"

definition amostras_s2 :: frame where
  "amostras_s2 = out_frame (grupos_de_expressao amostras)"

definition amostras_s3 :: frame where
  "amostras_s3 = out_frame (definir_grupos_comparacao amostras)"

text \<open>Three samples for the script of the genes IL5, IL33, IL25 and TSLP.\<close>

definition amostras_manutencao :: frame where
  "amostras_manutencao =
     \<lparr>columns = [''IL5'', ''IL33'', ''IL25'', ''TSLP'', ''OS_Time_nature2012'',
                 ''OS_event_nature2012'', ''PAM50Call_RNAseq''],
      rows =
        [row_of [(''IL5'', Num 1), (''IL33'', Num 2), (''IL25'', Num 3), (''TSLP'', Num 1),
                 (''OS_Time_nature2012'', Num 300), (''OS_event_nature2012'', Num 1),
                 (''PAM50Call_RNAseq'', Txt ''LumA'')],
         row_of [(''IL5'', Num 0), (''IL33'', Num 5), (''IL25'', Num 7), (''TSLP'', Num 1),
                 (''OS_Time_nature2012'', Num 1200), (''OS_event_nature2012'', Num 0),
                 (''PAM50Call_RNAseq'', Txt ''Basal'')],
         row_of [(''IL5'', Num 1), (''IL33'', Num 0), (''IL25'', Num 4), (''TSLP'', Num 0),
                 (''OS_Time_nature2012'', Num 800), (''OS_event_nature2012'', Num 0),
                 (''PAM50Call_RNAseq'', Txt ''LumB'')]]\<rparr>"

definition grupo_de :: "string \<Rightarrow> string" where
  "grupo_de gene = ''grupo_'' @ gene @ ''_vs_Nao''"






text \<open>
  Two stand-ins for the statistics libraries: one gives every test the p-value 0.5, the
  other fails every test with a ValueError, as scipy does on a table with a zero expected
  frequency.
\<close>

definition biblioteca_meio :: biblioteca where
  "biblioteca_meio c = Inr (1 / 2)"


text \<open>The three samples of \<open>amostras\<close> in a table that has no column for the gene EPX.\<close>

definition amostras_sem_EPX :: frame where
  "amostras_sem_EPX =
     \<lparr>columns = [''PRG2'', ''CLC'', ''IL5RA'', ''OS_Time_nature2012'',
                 ''OS_event_nature2012'', ''PAM50Call_RNAseq''],
      rows = rows amostras\<rparr>"

text \<open>
  A group of eleven samples that express CLC, two of them with an event; the same group
  with the expression of one sample missing; and a stand-in for the Cox fit.
\<close>

definition grupo_CLC :: frame where
  "grupo_CLC =
     \<lparr>columns = [''CLC'', ''OS_Time_nature2012'', ''OS_event_nature2012''],
      rows = map (\<lambda>(x, t, e). row_of [(''CLC'', x), (''OS_Time_nature2012'', Num t),
                                       (''OS_event_nature2012'', Num e)])
               [(Num 1, 100, 0), (Num 2, 200, 1), (Num 3, 300, 0), (Num 4, 400, 0),
                (Num 5, 500, 1), (Num 6, 600, 0), (Num 7, 700, 0), (Num 8, 800, 0),
                (Num 9, 900, 0), (Num 10, 1000, 0), (Num 11, 1100, 0)]\<rparr>"

definition grupo_CLC_faltante :: frame where
  "grupo_CLC_faltante =
     \<lparr>columns = [''CLC'', ''OS_Time_nature2012'', ''OS_event_nature2012''],
      rows = map (\<lambda>(x, t, e). row_of [(''CLC'', x), (''OS_Time_nature2012'', Num t),
                                       (''OS_event_nature2012'', Num e)])
               [(Num 1, 100, 0), (Num 2, 200, 1), (Num 3, 300, 0), (Num 4, 400, 0),
                (Num 5, 500, 1), (Num 6, 600, 0), (Num 7, 700, 0), (Num 8, 800, 0),
                (Num 9, 900, 0), (Num 10, 1000, 0), (NaN, 1100, 0)]\<rparr>"

definition cph_exemplo :: cox_fitter where
  "cph_exemplo df gene =
     Inr \<lparr>p_cox = 1 / 20, exp_coef = 2, exp_coef_lower_95 = 1, exp_coef_upper_95 = 4\<rparr>"

section \<open>Properties\<close>

lemma traverse_length: "traverse f xs = Inr ys \<Longrightarrow> length ys = length xs"
  by (induction xs arbitrary: ys) (auto split: sum.splits)

lemma traverse_nth:
  "traverse f xs = Inr ys \<Longrightarrow> i < length xs \<Longrightarrow> f (xs ! i) = Inr (ys ! i)"
proof (induction xs arbitrary: ys i)
  case Nil
  then show ?case by simp
next
  case (Cons x xs)
  then show ?case by (cases i) (auto split: sum.splits)
qed


lemma rows_put_column_length [simp]:
  "length vs = length (rows df) \<Longrightarrow> length (rows (put_column c vs df)) = length (rows df)"
  by (simp add: put_column_def)

lemma rows_put_column_nth:
  "length vs = length (rows df) \<Longrightarrow> i < length (rows df) \<Longrightarrow>
   rows (put_column c vs df) ! i = (rows df ! i)(c := vs ! i)"
  by (simp add: put_column_def)

lemma columns_put_column [simp]:
  "columns (put_column c vs df) = add_column c (columns df)"
  by (simp add: put_column_def)

lemma set_add_column [simp]: "set (add_column c cs) = insert c (set cs)"
  by (auto simp: add_column_def)

lemma length_column [simp]: "length (column df c) = length (rows df)"
  by (simp add: column_def)

lemma column_nth [simp]: "i < length (rows df) \<Longrightarrow> column df c ! i = (rows df ! i) c"
  by (simp add: column_def)

lemma series_gt_length: "series_gt s k = Inr bs \<Longrightarrow> length bs = length s"
  by (auto simp: series_gt_def split: sum.splits dest: traverse_length)

lemma series_gt_nth:
  assumes "series_gt s k = Inr bs" and "i < length s"
  shows "\<exists>b. gt_scalar k (s ! i) = Inr b \<and> bs ! i = Flag b"
proof -
  from assms(1) obtain ys where t: "traverse (gt_scalar k) s = Inr ys" and bs: "bs = map Flag ys"
    by (auto simp: series_gt_def split: sum.splits)
  from t assms(2) have "gt_scalar k (s ! i) = Inr (ys ! i)" by (rule traverse_nth)
  moreover from t have "length ys = length s" by (rule traverse_length)
  ultimately show ?thesis using bs assms(2) by simp
qed

text \<open>What one assignment \<^verbatim>\<open>df[gene_expresso] = df[gene] > 0\<close> does to the frame.\<close>

lemma marcar_expresso_rows:
  assumes "marcar_expresso gene df = Inr df'"
  shows "length (rows df') = length (rows df)"
    and "columns df' = add_column (expresso gene) (columns df)"
    and "i < length (rows df) \<Longrightarrow>
         \<exists>b. gt_scalar 0 ((rows df ! i) gene) = Inr b \<and>
             rows df' ! i = (rows df ! i)(expresso gene := Flag b)"
proof -
  from assms obtain s where s: "series_gt (column df gene) 0 = Inr s"
    and df': "df' = put_column (expresso gene) s df"
    by (auto simp: marcar_expresso_def split: sum.splits)
  from s have len: "length s = length (rows df)"
    by (auto dest: series_gt_length)
  show "length (rows df') = length (rows df)" using df' len by simp
  show "columns df' = add_column (expresso gene) (columns df)" using df' by simp
  show "\<exists>b. gt_scalar 0 ((rows df ! i) gene) = Inr b \<and>
             rows df' ! i = (rows df ! i)(expresso gene := Flag b)" if i: "i < length (rows df)"
  proof -
    from series_gt_nth [OF s, of i] i obtain b
      where b: "gt_scalar 0 ((rows df ! i) gene) = Inr b" "s ! i = Flag b"
      by auto
    with rows_put_column_nth [OF len i, of "expresso gene"] df' show ?thesis by simp
  qed
qed

lemma expresso_inj [simp]: "expresso a = expresso b \<longleftrightarrow> a = b"
  by (simp add: expresso_def)

text \<open>
  The loop over the genes: every gene of the list gets its boolean column, computed from
  the gene's own values, and no other column changes. The genes of the scripts never
  carry the suffix of a derived column, which is the side condition here.
\<close>

lemma binary_cols_rows:
  assumes "binary_cols gs df = Inr df'"
    and "\<forall>g\<in>set gs. expresso g \<notin> set gs"
  shows "length (rows df') = length (rows df) \<and>
         set (columns df) \<subseteq> set (columns df') \<and>
         (\<forall>i<length (rows df).
            (\<forall>c. c \<notin> expresso ` set gs \<longrightarrow> (rows df' ! i) c = (rows df ! i) c) \<and>
            (\<forall>g\<in>set gs. \<exists>b. gt_scalar 0 ((rows df ! i) g) = Inr b \<and>
                             (rows df' ! i) (expresso g) = Flag b))"
  using assms
proof (induction gs arbitrary: df)
  case Nil
  then show ?case by simp
next
  case (Cons gene genes)
  from Cons.prems(1) obtain df1 where m: "marcar_expresso gene df = Inr df1"
    and rest: "binary_cols genes df1 = Inr df'"
    by (auto split: sum.splits)
  from Cons.prems(2) have side: "\<forall>g\<in>set genes. expresso g \<notin> set genes"
    and notgene: "\<forall>g\<in>set (gene # genes). expresso g \<noteq> gene"
    and notin: "\<forall>g\<in>set genes. expresso gene \<noteq> g"
    by auto
  note ih = Cons.IH [OF rest side]
  note m1 = marcar_expresso_rows [OF m]
  have len: "length (rows df') = length (rows df)" using ih m1(1) by simp
  have cols: "set (columns df) \<subseteq> set (columns df')" using ih m1(2) by auto
  have body: "(\<forall>c. c \<notin> expresso ` set (gene # genes) \<longrightarrow> (rows df' ! i) c = (rows df ! i) c) \<and>
            (\<forall>g\<in>set (gene # genes). \<exists>b. gt_scalar 0 ((rows df ! i) g) = Inr b \<and>
                             (rows df' ! i) (expresso g) = Flag b)"
    if i: "i < length (rows df)" for i
  proof -
    from m1(3) [OF i] obtain b where b: "gt_scalar 0 ((rows df ! i) gene) = Inr b"
      and r1: "rows df1 ! i = (rows df ! i)(expresso gene := Flag b)" by auto
    from i m1(1) have i1: "i < length (rows df1)" by simp
    from ih i1 have keep: "\<And>c. c \<notin> expresso ` set genes \<Longrightarrow> (rows df' ! i) c = (rows df1 ! i) c"
      and new: "\<And>g. g \<in> set genes \<Longrightarrow>
                  \<exists>b. gt_scalar 0 ((rows df1 ! i) g) = Inr b \<and> (rows df' ! i) (expresso g) = Flag b"
      by auto
    have A: "(rows df' ! i) c = (rows df ! i) c" if "c \<notin> expresso ` set (gene # genes)" for c
      using keep [of c] that r1 by auto
    have B: "\<exists>b. gt_scalar 0 ((rows df ! i) g) = Inr b \<and> (rows df' ! i) (expresso g) = Flag b"
      if g: "g \<in> set (gene # genes)" for g
    proof (cases "g \<in> set genes")
      case True
      from notin True have "expresso gene \<noteq> g" by auto
      then have "(rows df1 ! i) g = (rows df ! i) g" using r1 by simp
      with new [OF True] show ?thesis by simp
    next
      case False
      with g have eq: "g = gene" by simp
      from False eq have "expresso gene \<notin> expresso ` set genes" by auto
      from keep [OF this] r1 have "(rows df' ! i) (expresso gene) = Flag b" by simp
      with b eq show ?thesis by simp
    qed
    from A B show ?thesis by blast
  qed
  from len cols body show ?case by blast
qed

lemma colunas_expresso_binary_cols:
  "set gs \<subseteq> set (columns df) \<Longrightarrow>
   colunas_expresso gs df =
     (case binary_cols gs df of Inl e \<Rightarrow> Inl e | Inr d \<Rightarrow> Inr (Some d))"
proof (induction gs arbitrary: df)
  case Nil
  then show ?case by simp
next
  case (Cons gene genes)
  show ?case
  proof (cases "marcar_expresso gene df")
    case (Inl e)
    with Cons.prems show ?thesis by simp
  next
    case (Inr df1)
    from marcar_expresso_rows(2) [OF Inr] Cons.prems
    have "set genes \<subseteq> set (columns df1)" by auto
    from Cons.IH [OF this] Inr Cons.prems show ?thesis by simp
  qed
qed

lemma colunas_expresso_present:
  "colunas_expresso gs df = Inr (Some df') \<Longrightarrow> \<forall>g\<in>set gs. expresso g \<notin> set gs \<Longrightarrow>
   set gs \<subseteq> set (columns df)"
proof (induction gs arbitrary: df)
  case Nil
  then show ?case by simp
next
  case (Cons gene genes)
  from Cons.prems(1) have g: "gene \<in> set (columns df)"
    by (auto split: if_splits)
  with Cons.prems(1) obtain df1 where m: "marcar_expresso gene df = Inr df1"
    and rest: "colunas_expresso genes df1 = Inr (Some df')"
    by (auto split: sum.splits)
  from Cons.prems(2) have side: "\<forall>g\<in>set genes. expresso g \<notin> set genes"
    and notin: "expresso gene \<notin> set genes"
    by auto
  from Cons.IH [OF rest side] marcar_expresso_rows(2) [OF m]
  have "set genes \<subseteq> insert (expresso gene) (set (columns df))" by simp
  with notin g show ?case by auto
qed


lemma and_cell_Inr:
  "and_cell p = Inr v \<Longrightarrow> \<exists>x y. p = (Flag x, Flag y) \<and> v = Flag (x \<and> y)"
  by (cases p rule: and_cell.cases) auto

lemma series_and_nth:
  assumes "series_and a b = Inr r" and "length a = length b"
  shows "length r = length a"
    and "i < length a \<Longrightarrow> \<exists>x y. a ! i = Flag x \<and> b ! i = Flag y \<and> r ! i = Flag (x \<and> y)"
proof -
  from assms(1) have t: "traverse and_cell (zip a b) = Inr r"
    by (simp add: series_and_def)
  from traverse_length [OF t] assms(2) show "length r = length a" by simp
  show "\<exists>x y. a ! i = Flag x \<and> b ! i = Flag y \<and> r ! i = Flag (x \<and> y)" if "i < length a"
  proof -
    from that assms(2) have "i < length (zip a b)" by simp
    from traverse_nth [OF t this] have "and_cell (zip a b ! i) = Inr (r ! i)" .
    from and_cell_Inr [OF this] that assms(2) show ?thesis by simp
  qed
qed

lemma column_of_Inr: "column_of df c = Inr s \<Longrightarrow> c \<in> set (columns df) \<and> s = column df c"
  by (auto simp: column_of_def split: if_splits)

text \<open>
  The running conjunction: when it succeeds, every column named holds booleans and the
  result is true exactly where the accumulator and all of them are.
\<close>

lemma todos_expressos_nth:
  assumes "todos_expressos df acc cs = Inr g" and "length acc = length (rows df)"
  shows "length g = length (rows df) \<and>
         (\<forall>i<length (rows df).
            (\<forall>c\<in>set cs. \<exists>b. (rows df ! i) c = Flag b) \<and>
            (if cs = [] then g ! i = acc ! i
             else \<exists>a. acc ! i = Flag a \<and>
                      g ! i = Flag (a \<and> (\<forall>c\<in>set cs. (rows df ! i) c = Flag True))))"
  using assms
proof (induction cs arbitrary: acc)
  case Nil
  then show ?case by simp
next
  case (Cons c cs)
  from Cons.prems(1) obtain s acc' where s: "column_of df c = Inr s"
    and a: "series_and acc s = Inr acc'"
    and rest: "todos_expressos df acc' cs = Inr g"
    by (auto split: sum.splits)
  from column_of_Inr [OF s] have s_def: "s = column df c" by simp
  with Cons.prems(2) have len: "length acc = length s" by simp
  note sa = series_and_nth [OF a len]
  from sa(1) Cons.prems(2) have len': "length acc' = length (rows df)" by simp
  note ih = Cons.IH [OF rest len']
  have "(\<forall>c\<in>set (c # cs). \<exists>b. (rows df ! i) c = Flag b) \<and>
        (\<exists>a. acc ! i = Flag a \<and>
             g ! i = Flag (a \<and> (\<forall>c\<in>set (c # cs). (rows df ! i) c = Flag True)))"
    if i: "i < length (rows df)" for i
  proof -
    from i Cons.prems(2) have "i < length acc" by simp
    from sa(2) [OF this] obtain x y where xy: "acc ! i = Flag x" "s ! i = Flag y"
      "acc' ! i = Flag (x \<and> y)" by blast
    from xy(2) s_def i have c: "(rows df ! i) c = Flag y" by simp
    from ih i have all: "\<forall>c\<in>set cs. \<exists>b. (rows df ! i) c = Flag b"
      and g: "if cs = [] then g ! i = acc' ! i
              else \<exists>a. acc' ! i = Flag a \<and>
                       g ! i = Flag (a \<and> (\<forall>c\<in>set cs. (rows df ! i) c = Flag True))"
      by blast+
    have "g ! i = Flag ((x \<and> y) \<and> (\<forall>c\<in>set cs. (rows df ! i) c = Flag True))"
    proof (cases "cs = []")
      case True
      with g xy(3) show ?thesis by simp
    next
      case False
      with g xy(3) show ?thesis by auto
    qed
    with xy(1) c all show ?thesis by auto
  qed
  with ih show ?case by simp
qed

text \<open>What \<^verbatim>\<open>df[name] = np.where(df[col], a, b)\<close> does to the frame.\<close>

lemma grupo_vs_nao_rows:
  assumes "grupo_vs_nao name col a b df = Inr df'"
  shows "length (rows df') = length (rows df)"
    and "columns df' = add_column name (columns df)"
    and "col \<in> set (columns df)"
    and "i < length (rows df) \<Longrightarrow>
         rows df' ! i = (rows df ! i)(name := Txt (if truthy ((rows df ! i) col) then a else b))"
proof -
  from assms have c: "col \<in> set (columns df)"
    and df': "df' = put_column name (np_where (column df col) a b) df"
    by (auto simp: grupo_vs_nao_def column_of_def split: if_splits)
  have len: "length (np_where (column df col) a b) = length (rows df)"
    by (simp add: np_where_def)
  show "length (rows df') = length (rows df)" using df' len by simp
  show "columns df' = add_column name (columns df)" using df' by simp
  show "col \<in> set (columns df)" by (rule c)
  show "rows df' ! i = (rows df ! i)(name := Txt (if truthy ((rows df ! i) col) then a else b))"
    if "i < length (rows df)"
    using rows_put_column_nth [OF len that, of name] that df' by (simp add: np_where_def)
qed

lemma g_all_nth:
  assumes "g_all df (c # c' # cs) = Inr g"
  shows "length g = length (rows df) \<and>
         (\<forall>i<length (rows df).
            (\<forall>k\<in>set (c # c' # cs). \<exists>b. (rows df ! i) k = Flag b) \<and>
            g ! i = Flag (\<forall>k\<in>set (c # c' # cs). (rows df ! i) k = Flag True))"
proof -
  from assms obtain s where s: "column_of df c = Inr s"
    and t: "todos_expressos df s (c' # cs) = Inr g"
    by (auto simp: g_all_def split: sum.splits)
  from column_of_Inr [OF s] have s_def: "s = column df c" by simp
  then have len: "length s = length (rows df)" by simp
  note te = todos_expressos_nth [OF t len]
  have "(\<forall>k\<in>set (c # c' # cs). \<exists>b. (rows df ! i) k = Flag b) \<and>
        g ! i = Flag (\<forall>k\<in>set (c # c' # cs). (rows df ! i) k = Flag True)"
    if i: "i < length (rows df)" for i
  proof -
    from te i obtain a where rest: "\<forall>k\<in>set (c' # cs). \<exists>b. (rows df ! i) k = Flag b"
      and a: "s ! i = Flag a"
      and g: "g ! i = Flag (a \<and> (\<forall>k\<in>set (c' # cs). (rows df ! i) k = Flag True))"
      by auto
    from a s_def i have "(rows df ! i) c = Flag a" by simp
    with rest g show ?thesis by auto
  qed
  with te show ?thesis by blast
qed

lemma definir_grupos_comparacao_rows:
  assumes "definir_grupos_comparacao df = Inr (Some df')"
  shows "\<exists>df1 g. colunas_expresso GENES_INTERESSE df = Inr (Some df1) \<and>
    g_all df1 [''PRG2_expresso'', ''EPX_expresso'', ''CLC_expresso'', ''IL5RA_expresso''] = Inr g \<and>
    length (rows df') = length (rows df1) \<and>
    (\<forall>i<length (rows df1).
           rows df' ! i = (rows df1 ! i)
             (''grupo_4_vs_outros'' := Txt (if truthy (g ! i) then ''CLC_EPX_IL5RA_PRG2'' else ''Demais''),
              ''grupo_PRG2_vs_Nao'' := Txt (if truthy ((rows df1 ! i) ''PRG2_expresso'')
                                          then Expressa ''PRG2'' else Nao_Expressa ''PRG2''),
              ''grupo_CLC_vs_Nao'' := Txt (if truthy ((rows df1 ! i) ''CLC_expresso'')
                                          then Expressa ''CLC'' else Nao_Expressa ''CLC''),
              ''grupo_IL5RA_vs_Nao'' := Txt (if truthy ((rows df1 ! i) ''IL5RA_expresso'')
                                          then Expressa ''IL5RA'' else Nao_Expressa ''IL5RA''),
              ''grupo_EPX_vs_Nao'' := Txt (if truthy ((rows df1 ! i) ''EPX_expresso'')
                                          then Expressa ''EPX'' else Nao_Expressa ''EPX'')))"
proof -
  from assms obtain df1 where l: "colunas_expresso GENES_INTERESSE df = Inr (Some df1)"
    by (auto simp: definir_grupos_comparacao_def split: sum.splits option.splits)
  with assms obtain g where g: "g_all df1 [''PRG2_expresso'', ''EPX_expresso'', ''CLC_expresso'', ''IL5RA_expresso''] = Inr g"
    by (auto simp: definir_grupos_comparacao_def split: sum.splits)
  define d0 where "d0 = put_column ''grupo_4_vs_outros'' (np_where g ''CLC_EPX_IL5RA_PRG2'' ''Demais'') df1"
  from assms l g obtain d1 d2 d3 where
    s1: "grupo_vs_nao ''grupo_PRG2_vs_Nao'' ''PRG2_expresso'' (Expressa ''PRG2'') (Nao_Expressa ''PRG2'') d0 = Inr d1"
    and s2: "grupo_vs_nao ''grupo_CLC_vs_Nao'' ''CLC_expresso'' (Expressa ''CLC'') (Nao_Expressa ''CLC'') d1 = Inr d2"
    and s3: "grupo_vs_nao ''grupo_IL5RA_vs_Nao'' ''IL5RA_expresso'' (Expressa ''IL5RA'') (Nao_Expressa ''IL5RA'') d2 = Inr d3"
    and s4: "grupo_vs_nao ''grupo_EPX_vs_Nao'' ''EPX_expresso'' (Expressa ''EPX'') (Nao_Expressa ''EPX'') d3 = Inr df'"
    by (auto simp: definir_grupos_comparacao_def d0_def split: sum.splits)
  from g_all_nth [OF g] have glen: "length (np_where g ''CLC_EPX_IL5RA_PRG2'' ''Demais'') = length (rows df1)"
    by (simp add: np_where_def)
  have l0: "length (rows d0) = length (rows df1)" using glen by (simp add: d0_def)
  note r1 = grupo_vs_nao_rows [OF s1] and r2 = grupo_vs_nao_rows [OF s2]
    and r3 = grupo_vs_nao_rows [OF s3] and r4 = grupo_vs_nao_rows [OF s4]
  have len: "length (rows df') = length (rows df1)"
    using l0 r1(1) r2(1) r3(1) r4(1) by simp
  have rows: "rows df' ! i = (rows df1 ! i)
             (''grupo_4_vs_outros'' := Txt (if truthy (g ! i) then ''CLC_EPX_IL5RA_PRG2'' else ''Demais''),
              ''grupo_PRG2_vs_Nao'' := Txt (if truthy ((rows df1 ! i) ''PRG2_expresso'')
                                          then Expressa ''PRG2'' else Nao_Expressa ''PRG2''),
              ''grupo_CLC_vs_Nao'' := Txt (if truthy ((rows df1 ! i) ''CLC_expresso'')
                                          then Expressa ''CLC'' else Nao_Expressa ''CLC''),
              ''grupo_IL5RA_vs_Nao'' := Txt (if truthy ((rows df1 ! i) ''IL5RA_expresso'')
                                          then Expressa ''IL5RA'' else Nao_Expressa ''IL5RA''),
              ''grupo_EPX_vs_Nao'' := Txt (if truthy ((rows df1 ! i) ''EPX_expresso'')
                                          then Expressa ''EPX'' else Nao_Expressa ''EPX''))"
    if i: "i < length (rows df1)" for i
  proof -
    from g_all_nth [OF g] have gl: "length g = length (rows df1)" by simp
    have e0: "rows d0 ! i = (rows df1 ! i)(''grupo_4_vs_outros'' := Txt (if truthy (g ! i) then ''CLC_EPX_IL5RA_PRG2'' else ''Demais''))"
      using rows_put_column_nth [OF glen i, of "''grupo_4_vs_outros''"] i gl
      by (simp add: d0_def np_where_def)
    from i l0 have i0: "i < length (rows d0)" by simp
    from i0 r1(1) have i1: "i < length (rows d1)" by simp
    from i1 r2(1) have i2: "i < length (rows d2)" by simp
    from i2 r3(1) have i3: "i < length (rows d3)" by simp
    show ?thesis
      using r4(4) [OF i3] r3(4) [OF i2] r2(4) [OF i1] r1(4) [OF i0] e0
      by simp
  qed
  from l g len rows show ?thesis by blast
qed


lemma gt_scalar_simps [simp]:
  "gt_scalar k (Num x) = Inr (k < x)"
  "gt_scalar k NaN = Inr False"
  "gt_scalar k (Flag b) = Inr (k < (if b then 1 else 0))"
  "gt_scalar k (Txt s) = Inl TypeError"
  by (simp_all add: gt_scalar_def)

lemma genes_side [simp]:
  "\<forall>g\<in>set GENES_INTERESSE. expresso g \<notin> set GENES_INTERESSE"
  "\<forall>g\<in>set (genes_presentes df). expresso g \<notin> set (genes_presentes df)"
  by (auto simp: GENES_INTERESSE_def genes_presentes_def genes_of_interest_def expresso_def)

lemma definir_grupos_comparacao_expresso:
  assumes d: "definir_grupos_comparacao df = Inr (Some df')"
    and gene: "gene \<in> set GENES_INTERESSE" and i: "i < length (rows df)"
  shows "length (rows df') = length (rows df)"
    and "gene \<in> set (columns df)"
    and "(rows df' ! i) gene = (rows df ! i) gene"
    and "\<exists>b. gt_scalar 0 ((rows df ! i) gene) = Inr b \<and> (rows df' ! i) (expresso gene) = Flag b"
proof -
  from definir_grupos_comparacao_rows [OF d] obtain df1 g
    where l: "colunas_expresso GENES_INTERESSE df = Inr (Some df1)"
    and len: "length (rows df') = length (rows df1)"
    and rows: "\<And>i. i < length (rows df1) \<Longrightarrow>
           rows df' ! i = (rows df1 ! i)
             (''grupo_4_vs_outros'' := Txt (if truthy (g ! i) then ''CLC_EPX_IL5RA_PRG2'' else ''Demais''),
              ''grupo_PRG2_vs_Nao'' := Txt (if truthy ((rows df1 ! i) ''PRG2_expresso'')
                                          then Expressa ''PRG2'' else Nao_Expressa ''PRG2''),
              ''grupo_CLC_vs_Nao'' := Txt (if truthy ((rows df1 ! i) ''CLC_expresso'')
                                          then Expressa ''CLC'' else Nao_Expressa ''CLC''),
              ''grupo_IL5RA_vs_Nao'' := Txt (if truthy ((rows df1 ! i) ''IL5RA_expresso'')
                                          then Expressa ''IL5RA'' else Nao_Expressa ''IL5RA''),
              ''grupo_EPX_vs_Nao'' := Txt (if truthy ((rows df1 ! i) ''EPX_expresso'')
                                          then Expressa ''EPX'' else Nao_Expressa ''EPX''))"
    by blast
  from colunas_expresso_present [OF l genes_side(1)] have pres: "set GENES_INTERESSE \<subseteq> set (columns df)" .
  from colunas_expresso_binary_cols [OF pres] l have b: "binary_cols GENES_INTERESSE df = Inr df1"
    by (auto split: sum.splits)
  note bc = binary_cols_rows [OF b genes_side(1)]
  from bc have len1: "length (rows df1) = length (rows df)" by simp
  with len show "length (rows df') = length (rows df)" by simp
  from pres gene show "gene \<in> set (columns df)" by auto
  from i len1 have i1: "i < length (rows df1)" by simp
  from gene have "gene \<notin> expresso ` set GENES_INTERESSE"
    using genes_side(1) by auto
  with bc i have keep: "(rows df1 ! i) gene = (rows df ! i) gene" by simp
  from bc i gene obtain b where b: "gt_scalar 0 ((rows df ! i) gene) = Inr b"
    "(rows df1 ! i) (expresso gene) = Flag b" by blast
  have other: "(rows df' ! i) c = (rows df1 ! i) c"
    if "c \<notin> {''grupo_4_vs_outros'', ''grupo_PRG2_vs_Nao'', ''grupo_CLC_vs_Nao'',
                ''grupo_IL5RA_vs_Nao'', ''grupo_EPX_vs_Nao''}" for c
    using rows [OF i1] that by simp
  from gene have "gene \<notin> {''grupo_4_vs_outros'', ''grupo_PRG2_vs_Nao'', ''grupo_CLC_vs_Nao'',
                ''grupo_IL5RA_vs_Nao'', ''grupo_EPX_vs_Nao''}"
    by (auto simp: GENES_INTERESSE_def)
  from other [OF this] keep show "(rows df' ! i) gene = (rows df ! i) gene" by simp
  from gene have "expresso gene \<notin> {''grupo_4_vs_outros'', ''grupo_PRG2_vs_Nao'',
                ''grupo_CLC_vs_Nao'', ''grupo_IL5RA_vs_Nao'', ''grupo_EPX_vs_Nao''}"
    by (auto simp: GENES_INTERESSE_def expresso_def)
  from other [OF this]
  have "(rows df' ! i) (expresso gene) = (rows df1 ! i) (expresso gene)" .
  with b show "\<exists>b. gt_scalar 0 ((rows df ! i) gene) = Inr b \<and> (rows df' ! i) (expresso gene) = Flag b"
    by simp
qed

lemma grupos_de_expressao_expresso:
  assumes d: "grupos_de_expressao df = Inr (Some df')"
    and gene: "gene \<in> set (genes_presentes df)" and i: "i < length (rows df)"
  shows "length (rows df') = length (rows df)"
    and "(rows df' ! i) gene = (rows df ! i) gene"
    and "\<exists>b. gt_scalar 0 ((rows df ! i) gene) = Inr b \<and> (rows df' ! i) (expresso gene) = Flag b"
proof -
  from d have b: "binary_cols (genes_presentes df) df = Inr df'"
    by (auto simp: grupos_de_expressao_def split: if_splits sum.splits)
  note bc = binary_cols_rows [OF b genes_side(2)]
  from bc show "length (rows df') = length (rows df)" by simp
  from gene have "gene \<notin> expresso ` set (genes_presentes df)"
    using genes_side(2) [of df] by auto
  with bc i show "(rows df' ! i) gene = (rows df ! i) gene" by simp
  from bc i gene show "\<exists>b. gt_scalar 0 ((rows df ! i) gene) = Inr b \<and> (rows df' ! i) (expresso gene) = Flag b"
    by blast
qed

lemmas frame_defs =
  column_def column_of_def add_column_def put_column_def drop_column_def series_gt_def
  series_and_def np_where_def expresso_def marcar_expresso_def row_of_def

lemma amostras_definir: "\<exists>d. definir_grupos_comparacao amostras = Inr (Some d)"
  by (simp add: definir_grupos_comparacao_def GENES_INTERESSE_def amostras_def g_all_def
      grupo_vs_nao_def frame_defs)

lemma amostras_s2: "\<exists>d. grupos_de_expressao amostras = Inr (Some d)"
  by (simp add: grupos_de_expressao_def genes_presentes_def genes_of_interest_def amostras_def frame_defs)

text \<open>The boolean columns of both scripts, for a table on which the script goes through.\<close>

lemma expresso_iff_positive_rows:
  assumes "grupos_de_expressao df = Inr (Some df') \<and> gene \<in> set (genes_presentes df) \<or>
           definir_grupos_comparacao df = Inr (Some df') \<and> gene \<in> set GENES_INTERESSE"
    and "i < length (rows df)"
  shows "length (rows df') = length (rows df) \<and>
         gene \<in> set (columns df) \<and>
         (rows df' ! i) gene = (rows df ! i) gene \<and>
         (\<forall>x. (rows df ! i) gene = Num x \<longrightarrow> (rows df' ! i) (expresso gene) = Flag (0 < x)) \<and>
         ((rows df ! i) gene = Num 0 \<longrightarrow> (rows df' ! i) (expresso gene) = Flag False) \<and>
         ((rows df ! i) gene = NaN \<longrightarrow> (rows df' ! i) (expresso gene) = Flag False)"
proof -
  have facts: "length (rows df') = length (rows df) \<and> gene \<in> set (columns df) \<and>
        (rows df' ! i) gene = (rows df ! i) gene \<and>
        (\<exists>b. gt_scalar 0 ((rows df ! i) gene) = Inr b \<and> (rows df' ! i) (expresso gene) = Flag b)"
    using assms(1)
  proof
    assume a: "grupos_de_expressao df = Inr (Some df') \<and> gene \<in> set (genes_presentes df)"
    then have "gene \<in> set (columns df)" by (simp add: genes_presentes_def)
    with a grupos_de_expressao_expresso [of df df' gene i] assms(2) show ?thesis by simp
  next
    assume a: "definir_grupos_comparacao df = Inr (Some df') \<and> gene \<in> set GENES_INTERESSE"
    with definir_grupos_comparacao_expresso [of df df' gene i] assms(2) show ?thesis by simp
  qed
  then obtain b where b: "gt_scalar 0 ((rows df ! i) gene) = Inr b"
    "(rows df' ! i) (expresso gene) = Flag b" by blast
  have "(rows df' ! i) (expresso gene) = Flag (0 < x)" if "(rows df ! i) gene = Num x" for x
    using b that by simp
  moreover have "(rows df' ! i) (expresso gene) = Flag False" if "(rows df ! i) gene = NaN"
    using b that by simp
  ultimately show ?thesis using facts by simp
qed

lemma length_filter_two_labels:
  assumes "\<forall>r\<in>set rs. f r = a \<or> f r = b" and "a \<noteq> b"
  shows "length [r\<leftarrow>rs. f r = a] + length [r\<leftarrow>rs. f r = b] = length rs"
  using assms by (induction rs) auto

lemma Expressa_neq_Nao [simp]:
  "Expressa g \<noteq> Nao_Expressa g" "Nao_Expressa g \<noteq> Expressa g"
  by (simp_all add: Expressa_def Nao_Expressa_def)

lemma definir_grupos_comparacao_grupos:
  assumes d: "definir_grupos_comparacao df = Inr (Some df')"
    and i: "i < length (rows df)"
  shows "(rows df' ! i) ''grupo_4_vs_outros'' =
           Txt (if \<forall>gene\<in>set GENES_INTERESSE. (rows df' ! i) (expresso gene) = Flag True
                then ''CLC_EPX_IL5RA_PRG2'' else ''Demais'')"
    and "gene \<in> set GENES_INTERESSE \<Longrightarrow>
         (rows df' ! i) (grupo_de gene) =
           Txt (if (rows df' ! i) (expresso gene) = Flag True
                then Expressa gene else Nao_Expressa gene)"
proof -
  from definir_grupos_comparacao_rows [OF d] obtain df1 g
    where l: "colunas_expresso GENES_INTERESSE df = Inr (Some df1)"
    and g: "g_all df1 [''PRG2_expresso'', ''EPX_expresso'', ''CLC_expresso'', ''IL5RA_expresso''] = Inr g"
    and len: "length (rows df') = length (rows df1)"
    and rows: "\<And>i. i < length (rows df1) \<Longrightarrow>
           rows df' ! i = (rows df1 ! i)
             (''grupo_4_vs_outros'' := Txt (if truthy (g ! i) then ''CLC_EPX_IL5RA_PRG2'' else ''Demais''),
              ''grupo_PRG2_vs_Nao'' := Txt (if truthy ((rows df1 ! i) ''PRG2_expresso'')
                                          then Expressa ''PRG2'' else Nao_Expressa ''PRG2''),
              ''grupo_CLC_vs_Nao'' := Txt (if truthy ((rows df1 ! i) ''CLC_expresso'')
                                          then Expressa ''CLC'' else Nao_Expressa ''CLC''),
              ''grupo_IL5RA_vs_Nao'' := Txt (if truthy ((rows df1 ! i) ''IL5RA_expresso'')
                                          then Expressa ''IL5RA'' else Nao_Expressa ''IL5RA''),
              ''grupo_EPX_vs_Nao'' := Txt (if truthy ((rows df1 ! i) ''EPX_expresso'')
                                          then Expressa ''EPX'' else Nao_Expressa ''EPX''))"
    by blast
  have "''CLC'' \<in> set GENES_INTERESSE" by (simp add: GENES_INTERESSE_def)
  from definir_grupos_comparacao_expresso(1) [OF d this i] len i
  have i1: "i < length (rows df1)" by simp
  note gn = g_all_nth [OF g]
  from gn i1 have flags: "\<forall>k\<in>set [''PRG2_expresso'', ''EPX_expresso'', ''CLC_expresso'', ''IL5RA_expresso''].
      \<exists>b. (rows df1 ! i) k = Flag b"
    and gi: "g ! i = Flag (\<forall>k\<in>set [''PRG2_expresso'', ''EPX_expresso'', ''CLC_expresso'', ''IL5RA_expresso''].
      (rows df1 ! i) k = Flag True)"
    by blast+
  have same: "(rows df' ! i) k = (rows df1 ! i) k"
    if "k \<in> set [''PRG2_expresso'', ''EPX_expresso'', ''CLC_expresso'', ''IL5RA_expresso'']" for k
  proof -
    from that have "k \<notin> {''grupo_4_vs_outros'', ''grupo_PRG2_vs_Nao'', ''grupo_CLC_vs_Nao'',
                ''grupo_IL5RA_vs_Nao'', ''grupo_EPX_vs_Nao''}" by auto
    then show ?thesis by (simp add: rows [OF i1])
  qed
  have t: "truthy ((rows df1 ! i) k) = ((rows df' ! i) k = Flag True)"
    if "k \<in> set [''PRG2_expresso'', ''EPX_expresso'', ''CLC_expresso'', ''IL5RA_expresso'']" for k
  proof -
    from flags that obtain b where "(rows df1 ! i) k = Flag b" by blast
    with same [OF that] show ?thesis by simp
  qed
  have g4: "(rows df' ! i) ''grupo_4_vs_outros'' =
      Txt (if truthy (g ! i) then ''CLC_EPX_IL5RA_PRG2'' else ''Demais'')"
    by (simp add: rows [OF i1])
  have "truthy (g ! i) = (\<forall>k\<in>set [''PRG2_expresso'', ''EPX_expresso'', ''CLC_expresso'', ''IL5RA_expresso''].
      (rows df' ! i) k = Flag True)"
    using gi same by simp
  then have "truthy (g ! i) = (\<forall>gene\<in>set GENES_INTERESSE. (rows df' ! i) (expresso gene) = Flag True)"
    by (simp add: GENES_INTERESSE_def expresso_def)
  with g4 show "(rows df' ! i) ''grupo_4_vs_outros'' =
           Txt (if \<forall>gene\<in>set GENES_INTERESSE. (rows df' ! i) (expresso gene) = Flag True
                then ''CLC_EPX_IL5RA_PRG2'' else ''Demais'')"
    by simp
  show "(rows df' ! i) (grupo_de gene) =
           Txt (if (rows df' ! i) (expresso gene) = Flag True
                then Expressa gene else Nao_Expressa gene)" if "gene \<in> set GENES_INTERESSE"
  proof -
    from that consider "gene = ''PRG2''" | "gene = ''EPX''" | "gene = ''CLC''" | "gene = ''IL5RA''"
      by (auto simp: GENES_INTERESSE_def)
    then show ?thesis
    proof cases
      case 1
      have "(rows df' ! i) ''grupo_PRG2_vs_Nao'' = Txt (if truthy ((rows df1 ! i) ''PRG2_expresso'')
                                          then Expressa ''PRG2'' else Nao_Expressa ''PRG2'')"
        by (simp add: rows [OF i1])
      with t [of "''PRG2_expresso''"] 1 show ?thesis by (simp add: grupo_de_def expresso_def)
    next
      case 2
      have "(rows df' ! i) ''grupo_EPX_vs_Nao'' = Txt (if truthy ((rows df1 ! i) ''EPX_expresso'')
                                          then Expressa ''EPX'' else Nao_Expressa ''EPX'')"
        by (simp add: rows [OF i1])
      with t [of "''EPX_expresso''"] 2 show ?thesis by (simp add: grupo_de_def expresso_def)
    next
      case 3
      have "(rows df' ! i) ''grupo_CLC_vs_Nao'' = Txt (if truthy ((rows df1 ! i) ''CLC_expresso'')
                                          then Expressa ''CLC'' else Nao_Expressa ''CLC'')"
        by (simp add: rows [OF i1])
      with t [of "''CLC_expresso''"] 3 show ?thesis by (simp add: grupo_de_def expresso_def)
    next
      case 4
      have "(rows df' ! i) ''grupo_IL5RA_vs_Nao'' = Txt (if truthy ((rows df1 ! i) ''IL5RA_expresso'')
                                          then Expressa ''IL5RA'' else Nao_Expressa ''IL5RA'')"
        by (simp add: rows [OF i1])
      with t [of "''IL5RA_expresso''"] 4 show ?thesis by (simp add: grupo_de_def expresso_def)
    qed
  qed
qed


lemma definir_grupos_comparacao_length:
  assumes "definir_grupos_comparacao df = Inr (Some df')"
  shows "length (rows df') = length (rows df)"
proof -
  from definir_grupos_comparacao_rows [OF assms] obtain df1
    where l: "colunas_expresso GENES_INTERESSE df = Inr (Some df1)"
    and len: "length (rows df') = length (rows df1)"
    by blast
  from colunas_expresso_present [OF l genes_side(1)]
  have "set GENES_INTERESSE \<subseteq> set (columns df)" .
  from colunas_expresso_binary_cols [OF this] l
  have "binary_cols GENES_INTERESSE df = Inr df1" by (auto split: sum.splits)
  from binary_cols_rows [OF this genes_side(1)] len show ?thesis by simp
qed

text \<open>The presence split of one gene, for a table on which the function returns.\<close>

lemma presenca_particao_rows:
  assumes "definir_grupos_comparacao df = Inr (Some df')" and "gene \<in> set GENES_INTERESSE"
  shows "length (rows df') = length (rows df) \<and>
    (\<forall>i<length (rows df).
       ((rows df' ! i) (grupo_de gene) = Txt (Expressa gene) \<or>
        (rows df' ! i) (grupo_de gene) = Txt (Nao_Expressa gene)) \<and>
       \<not> ((rows df' ! i) (grupo_de gene) = Txt (Expressa gene) \<and>
          (rows df' ! i) (grupo_de gene) = Txt (Nao_Expressa gene)) \<and>
       (\<forall>x. (rows df ! i) gene = Num x \<longrightarrow>
          ((rows df' ! i) (grupo_de gene) = Txt (Expressa gene)) = (0 < x)) \<and>
       ((rows df ! i) gene = NaN \<longrightarrow>
          (rows df' ! i) (grupo_de gene) = Txt (Nao_Expressa gene))) \<and>
    length [r\<leftarrow>rows df'. r (grupo_de gene) = Txt (Expressa gene)] +
    length [r\<leftarrow>rows df'. r (grupo_de gene) = Txt (Nao_Expressa gene)] = length (rows df)"
proof -
  note len = definir_grupos_comparacao_length [OF assms(1)]
  have lab: "(rows df' ! i) (grupo_de gene) =
           Txt (if (rows df' ! i) (expresso gene) = Flag True
                then Expressa gene else Nao_Expressa gene)"
    if "i < length (rows df)" for i
    using definir_grupos_comparacao_grupos(2) [OF assms(1) that assms(2)] .
  have ex: "\<exists>b. gt_scalar 0 ((rows df ! i) gene) = Inr b \<and> (rows df' ! i) (expresso gene) = Flag b"
    if "i < length (rows df)" for i
    using definir_grupos_comparacao_expresso(4) [OF assms that] .
  have per_row: "((rows df' ! i) (grupo_de gene) = Txt (Expressa gene) \<or>
        (rows df' ! i) (grupo_de gene) = Txt (Nao_Expressa gene)) \<and>
       \<not> ((rows df' ! i) (grupo_de gene) = Txt (Expressa gene) \<and>
          (rows df' ! i) (grupo_de gene) = Txt (Nao_Expressa gene)) \<and>
       (\<forall>x. (rows df ! i) gene = Num x \<longrightarrow>
          ((rows df' ! i) (grupo_de gene) = Txt (Expressa gene)) = (0 < x)) \<and>
       ((rows df ! i) gene = NaN \<longrightarrow>
          (rows df' ! i) (grupo_de gene) = Txt (Nao_Expressa gene))"
    if i: "i < length (rows df)" for i
  proof -
    from ex [OF i] obtain b where b: "gt_scalar 0 ((rows df ! i) gene) = Inr b"
      "(rows df' ! i) (expresso gene) = Flag b" by blast
    from lab [OF i] b(2)
    have l: "(rows df' ! i) (grupo_de gene) = Txt (if b then Expressa gene else Nao_Expressa gene)"
      by simp
    show ?thesis using l b(1) by auto
  qed
  have "\<forall>r\<in>set (rows df'). r (grupo_de gene) = Txt (Expressa gene) \<or>
                            r (grupo_de gene) = Txt (Nao_Expressa gene)"
  proof
    fix r assume "r \<in> set (rows df')"
    then obtain i where "i < length (rows df')" "r = rows df' ! i"
      by (auto simp: in_set_conv_nth)
    with per_row [of i] len show "r (grupo_de gene) = Txt (Expressa gene) \<or>
                            r (grupo_de gene) = Txt (Nao_Expressa gene)" by simp
  qed
  from length_filter_two_labels [OF this] len
  have "length [r\<leftarrow>rows df'. r (grupo_de gene) = Txt (Expressa gene)] +
    length [r\<leftarrow>rows df'. r (grupo_de gene) = Txt (Nao_Expressa gene)] = length (rows df)"
    by simp
  with len per_row show ?thesis by blast
qed

text \<open>
  C4, the script for PRG2, EPX, CLC and IL5RA: the sample's label in
  \<^verbatim>\<open>grupo_4_vs_outros\<close> is the all-expressed label exactly when every gene of
  \<open>GENES_INTERESSE\<close> is expressed, and \<open>Demais\<close> otherwise.
\<close>

lemma grupo_4_vs_outros_todos:
  assumes "definir_grupos_comparacao df = Inr (Some df')" and "i < length (rows df)"
  shows "(rows df' ! i) ''grupo_4_vs_outros'' =
           Txt (if \<forall>gene\<in>set GENES_INTERESSE. (rows df' ! i) (expresso gene) = Flag True
                then ''CLC_EPX_IL5RA_PRG2'' else ''Demais'')"
    and "\<forall>gene\<in>set GENES_INTERESSE. \<forall>x. (rows df ! i) gene = Num x \<longrightarrow>
           ((rows df' ! i) (expresso gene) = Flag True) = (0 < x)"
proof -
  show "(rows df' ! i) ''grupo_4_vs_outros'' =
           Txt (if \<forall>gene\<in>set GENES_INTERESSE. (rows df' ! i) (expresso gene) = Flag True
                then ''CLC_EPX_IL5RA_PRG2'' else ''Demais'')"
    using definir_grupos_comparacao_grupos(1) [OF assms] .
  show "\<forall>gene\<in>set GENES_INTERESSE. \<forall>x. (rows df ! i) gene = Num x \<longrightarrow>
           ((rows df' ! i) (expresso gene) = Flag True) = (0 < x)"
  proof (intro ballI allI impI)
    fix gene x assume g: "gene \<in> set GENES_INTERESSE" and x: "(rows df ! i) gene = Num x"
    from definir_grupos_comparacao_expresso(4) [OF assms(1) g assms(2)] x
    show "((rows df' ! i) (expresso gene) = Flag True) = (0 < x)" by auto
  qed
qed

text \<open>
  C4, the script for IL5, IL33, IL25 and TSLP: the loop makes \<^verbatim>\<open>IL5_expresso\<close>, the
  conjunction reads \<^verbatim>\<open>IL5RA_expresso\<close>. On a table with the four gene columns and
  the clinical columns the function raises KeyError; no sample gets a label.
\<close>

theorem definir_grupos_comparacao_manutencao_KeyError:
  "definir_grupos_comparacao_manutencao amostras_manutencao = Inl (KeyError ''IL5RA_expresso'')"
  by (simp add: definir_grupos_comparacao_manutencao_def GENES_INTERESSE_manutencao_def
      amostras_manutencao_def g_all_def frame_defs)
lemma traverse_map_Inr:
  "(\<And>x. x \<in> set xs \<Longrightarrow> f x = Inr (g x)) \<Longrightarrow> traverse f xs = Inr (map g xs)"
  by (induction xs) auto

lemma map_filter_Some [simp]: "List.map_filter (\<lambda>v. v) (map Some xs) = xs"
  by (induction xs) (auto simp: List.map_filter_def)

lemma traverse_as_float_Num [simp]: "traverse as_float (map Num xs) = Inr (map Some xs)"
  by (induction xs) simp_all

lemma series_median_Num [simp]: "series_median (map Num xs) = Inr (median xs)"
  by (simp add: series_median_def)

lemma cmp_median_Num [simp]:
  "cmp_median rel m (Num x) = Inr (case m of None \<Rightarrow> False | Some y \<Rightarrow> rel x y)"
  by (simp add: cmp_median_def)

lemma traverse_cmp_median_Num [simp]:
  "traverse (cmp_median rel m) (map Num xs) =
     Inr (map (\<lambda>x. case m of None \<Rightarrow> False | Some y \<Rightarrow> rel x y) xs)"
  by (induction xs) simp_all

lemma column_put_column_same [simp]:
  "length vs = length (rows df) \<Longrightarrow> column (put_column c vs df) c = vs"
  by (auto simp: column_def put_column_def intro!: nth_equalityI)

lemma column_put_column_other [simp]:
  "length vs = length (rows df) \<Longrightarrow> c' \<noteq> c \<Longrightarrow> column (put_column c vs df) c' = column df c'"
  by (auto simp: column_def put_column_def intro!: nth_equalityI)

lemma rows_loc_assign_length [simp]:
  "length sel = length (rows df) \<Longrightarrow> length (rows (loc_assign sel c v df)) = length (rows df)"
  by (simp add: loc_assign_def)

lemma column_loc_assign_other [simp]:
  "length sel = length (rows df) \<Longrightarrow> c' \<noteq> c \<Longrightarrow> column (loc_assign sel c v df) c' = column df c'"
  by (auto simp: column_def loc_assign_def intro!: nth_equalityI)


lemma median_None [simp]: "median xs = None \<longleftrightarrow> xs = []"
  by (simp add: median_def Let_def)

lemma length_filter_zip_snd:
  "length rs = length ss \<Longrightarrow>
   length (filter (\<lambda>(r, s). P s) (zip rs ss)) = length (filter P ss)"
  by (induction rs ss rule: list_induct2) auto

lemma labels_distinct [simp]:
  "Alta_Expressao \<noteq> Baixa_Expressao" "Baixa_Expressao \<noteq> Alta_Expressao"
  "Alta_Expressao \<noteq> Excluido" "Excluido \<noteq> Alta_Expressao"
  "Baixa_Expressao \<noteq> Excluido" "Excluido \<noteq> Baixa_Expressao"
  by (simp_all add: Alta_Expressao_def Baixa_Expressao_def Excluido_def)










lemma rotular_Num [simp]:
  "rotular m (map Num xs) =
     Inr (map (\<lambda>x. Txt (if (case m of None \<Rightarrow> False | Some y \<Rightarrow> y \<le> x)
                         then Alta_Expressao else Baixa_Expressao)) xs)"
  by (simp add: rotular_def comp_def)


















lemma amostras_s3_eval:
  "definir_grupos_comparacao amostras = Inr (Some amostras_s3)"
  using amostras_definir by (auto simp: amostras_s3_def out_frame_def)

lemma amostras_s3_rows:
  "map (\<lambda>r. (r ''OS_Time_nature2012'', r ''OS_event_nature2012'', r ''PAM50Call_RNAseq'',
              r ''grupo_CLC_vs_Nao'', r ''grupo_4_vs_outros'')) (rows amostras_s3) =
   [(Num 300, Num 1, Txt ''LumA'', Txt (Nao_Expressa ''CLC''), Txt ''Demais''),
    (Num 1200, Num 0, Txt ''Basal'', Txt (Expressa ''CLC''), Txt ''CLC_EPX_IL5RA_PRG2''),
    (Num 800, Num 0, Txt ''LumB'', Txt (Expressa ''CLC''), Txt ''Demais'')]"
  by (simp add: amostras_s3_def out_frame_def definir_grupos_comparacao_def GENES_INTERESSE_def
      amostras_def g_all_def grupo_vs_nao_def frame_defs)

lemma amostras_s3_columns:
  "set [''OS_Time_nature2012'', ''OS_event_nature2012'', ''PAM50Call_RNAseq'',
        ''grupo_CLC_vs_Nao'', ''grupo_4_vs_outros''] \<subseteq> set (columns amostras_s3)"
  by (simp add: amostras_s3_def out_frame_def definir_grupos_comparacao_def GENES_INTERESSE_def
      amostras_def g_all_def grupo_vs_nao_def frame_defs)
















text \<open>
  C9 as stated fails: when the table has no column for EPX, \<^verbatim>\<open>main\<close> prints the missing
  column and returns; the comparison by CLC, whose column is there, is not made either.
\<close>

theorem main_sem_EPX:
  "main biblioteca_meio amostras_sem_EPX = Inr ([], [Erro_colunas_ausentes [''EPX'']]) \<and>
   ''CLC'' \<in> set (columns amostras_sem_EPX)"
  by (simp add: main_def GENES_INTERESSE_def COL_TEMPO_def COL_EVENTO_def COL_PAM50_def
      amostras_sem_EPX_def)

text \<open>
  C9, amended. When a gene of \<open>GENES_INTERESSE\<close> is not a column of the table,
  \<^verbatim>\<open>main\<close> prints the missing columns and returns normally without making any figure:
  no comparison of the run is made, with no value standing in for the missing gene; and
  \<^verbatim>\<open>definir_grupos_comparacao\<close> never returns a table of groups for such a table.
\<close>

theorem gene_ausente_encerra:
  assumes "gene \<in> set GENES_INTERESSE" and "gene \<notin> set (columns df)"
  shows "(\<exists>faltando. gene \<in> set faltando \<and>
            main lib df = Inr ([], [Erro_colunas_ausentes faltando])) \<and>
         (\<forall>df'. definir_grupos_comparacao df \<noteq> Inr (Some df'))"
proof
  define faltando where "faltando = filter (\<lambda>col. col \<notin> set (columns df))
      (GENES_INTERESSE @ [COL_TEMPO, COL_EVENTO, COL_PAM50])"
  from assms have g: "gene \<in> set faltando" by (simp add: faltando_def)
  then have "faltando \<noteq> []" by auto
  then have "main lib df = Inr ([], [Erro_colunas_ausentes faltando])"
    by (simp add: main_def Let_def faltando_def)
  with g show "\<exists>faltando. gene \<in> set faltando \<and>
            main lib df = Inr ([], [Erro_colunas_ausentes faltando])" by blast
next
  show "\<forall>df'. definir_grupos_comparacao df \<noteq> Inr (Some df')"
  proof (intro allI notI)
    fix df' assume "definir_grupos_comparacao df = Inr (Some df')"
    from definir_grupos_comparacao_rows [OF this] obtain df1
      where "colunas_expresso GENES_INTERESSE df = Inr (Some df1)" by blast
    from colunas_expresso_present [OF this genes_side(1)] assms
    show False by auto
  qed
qed


theorem gene_ausente_encerra_witness:
  "''EPX'' \<in> set GENES_INTERESSE \<and> ''EPX'' \<notin> set (columns amostras_sem_EPX) \<and>
   (\<exists>faltando. ''EPX'' \<in> set faltando \<and>
      main biblioteca_meio amostras_sem_EPX = Inr ([], [Erro_colunas_ausentes faltando])) \<and>
   (\<forall>df'. definir_grupos_comparacao amostras_sem_EPX \<noteq> Inr (Some df'))"
proof -
  have g: "''EPX'' \<in> set GENES_INTERESSE" by (simp add: GENES_INTERESSE_def)
  have c: "''EPX'' \<notin> set (columns amostras_sem_EPX)" by (simp add: amostras_sem_EPX_def)
  from gene_ausente_encerra [OF g c, of biblioteca_meio] g c show ?thesis by simp
qed

lemma series_sum_binary:
  assumes "\<forall>c\<in>set s. c = Num 0 \<or> c = Num 1"
  shows "series_sum s = Inr (real (length [c\<leftarrow>s. c = Num 1]))"
  using assms by (induction s) auto

text \<open>The Cox row, when the loop body returns a row.\<close>

lemma cox_dados_suficientes_rows:
  assumes "linha_cox cph group_df group_name gene = Inr (Some l)"
  shows "(hazard_ratio l \<noteq> None \<or> valor l \<noteq> None \<longrightarrow>
           10 < length (linhas_cox group_df gene) \<and>
           (\<exists>eventos summary.
              series_sum (map (\<lambda>r. r col_evento) (linhas_cox group_df gene)) = Inr eventos \<and>
              1 < eventos \<and>
              cph \<lparr>columns = [col_tempo, col_evento, gene], rows = linhas_cox group_df gene\<rparr>
                  gene = Inr summary \<and>
              valor l = Some (p_cox summary) \<and>
              hazard_ratio l = Some (exp_coef summary) \<and>
              hr_ic_95 l = Intervalo (exp_coef_lower_95 summary) (exp_coef_upper_95 summary))) \<and>
         (length (linhas_cox group_df gene) \<le> 10 \<or>
          (\<exists>eventos. series_sum (map (\<lambda>r. r col_evento) (linhas_cox group_df gene)) = Inr eventos \<and>
                     eventos \<le> 1) \<longrightarrow>
            valor l = None \<and> hazard_ratio l = None \<and> hr_ic_95 l = Dados_insuficientes_cox) \<and>
         ((\<forall>r\<in>set (linhas_cox group_df gene). r col_evento = Num 0 \<or> r col_evento = Num 1) \<longrightarrow>
            series_sum (map (\<lambda>r. r col_evento) (linhas_cox group_df gene)) =
              Inr (real (length [r\<leftarrow>linhas_cox group_df gene. r col_evento = Num 1])))"
proof (intro conjI impI)
  assume "hazard_ratio l \<noteq> None \<or> valor l \<noteq> None"
  with assms show "10 < length (linhas_cox group_df gene)"
    by (auto simp: linha_cox_def Let_def split: if_splits sum.splits)
next
  assume "hazard_ratio l \<noteq> None \<or> valor l \<noteq> None"
  with assms show "\<exists>eventos summary.
              series_sum (map (\<lambda>r. r col_evento) (linhas_cox group_df gene)) = Inr eventos \<and>
              1 < eventos \<and>
              cph \<lparr>columns = [col_tempo, col_evento, gene], rows = linhas_cox group_df gene\<rparr>
                  gene = Inr summary \<and>
              valor l = Some (p_cox summary) \<and>
              hazard_ratio l = Some (exp_coef summary) \<and>
              hr_ic_95 l = Intervalo (exp_coef_lower_95 summary) (exp_coef_upper_95 summary)"
    by (auto simp: linha_cox_def Let_def column_def split: if_splits sum.splits)
next
  assume "length (linhas_cox group_df gene) \<le> 10 \<or>
          (\<exists>eventos. series_sum (map (\<lambda>r. r col_evento) (linhas_cox group_df gene)) = Inr eventos \<and>
                     eventos \<le> 1)"
  with assms show "valor l = None" "hazard_ratio l = None" "hr_ic_95 l = Dados_insuficientes_cox"
    by (auto simp: linha_cox_def Let_def column_def split: if_splits sum.splits)
next
  assume "\<forall>r\<in>set (linhas_cox group_df gene). r col_evento = Num 0 \<or> r col_evento = Num 1"
  then have "\<forall>c\<in>set (map (\<lambda>r. r col_evento) (linhas_cox group_df gene)). c = Num 0 \<or> c = Num 1"
    by auto
  from series_sum_binary [OF this]
  show "series_sum (map (\<lambda>r. r col_evento) (linhas_cox group_df gene)) =
              Inr (real (length [r\<leftarrow>linhas_cox group_df gene. r col_evento = Num 1]))"
    by (simp add: filter_map comp_def)
qed

lemma grupo_CLC_linha:
  "linha_cox cph_exemplo grupo_CLC ''CLC'' ''CLC'' =
     Inr (Some \<lparr>grupo_expressao = ''CLC'', gene_analisado = ''CLC'', valor = Some (1 / 20),
                hazard_ratio = Some 2, hr_ic_95 = Intervalo 1 4\<rparr>)"
  by (simp add: linha_cox_def linhas_cox_def grupo_CLC_def cph_exemplo_def col_tempo_def
      col_evento_def row_of_def column_def)

lemma grupo_CLC_faltante_linha:
  "linha_cox cph_exemplo grupo_CLC_faltante ''CLC'' ''CLC'' =
     Inr (Some \<lparr>grupo_expressao = ''CLC'', gene_analisado = ''CLC'', valor = None,
                hazard_ratio = None, hr_ic_95 = Dados_insuficientes_cox\<rparr>)"
  by (simp add: linha_cox_def linhas_cox_def grupo_CLC_faltante_def cph_exemplo_def col_tempo_def
      col_evento_def row_of_def column_def)

text \<open>
  The formula without rounding: the margin is never negative for \<open>k \<le> n\<close> and a
  non-negative quantile, it is 0 at \<open>k = 0\<close>, and \<open>n = 0\<close> gives 0 without a division.
\<close>

lemma wilson_sem_amostras: "calcular_intervalo_confianca_wilson ppf k 0 nivel = 0"
  by (simp add: calcular_intervalo_confianca_wilson_def)

lemma wilson_margem_exata:
  assumes n: "0 < n" and k: "k \<le> n" and z: "0 \<le> ppf (1 - (1 - nivel) / 2)"
  shows "0 \<le> calcular_intervalo_confianca_wilson ppf k n nivel"
    and "k = 0 \<Longrightarrow> calcular_intervalo_confianca_wilson ppf k n nivel = 0"
proof -
  define z where "z = ppf (1 - (1 - nivel) / 2)"
  define p where "p = real k / real n"
  define a where "a = z / (2 * real n)"
  define termo2 where "termo2 = z * sqrt (p * (1 - p) / real n + (z * z) / (4 * real n * real n))"
  define d where "d = 1 + (z * z) / real n"
  have z0: "0 \<le> z" using z by (simp add: z_def)
  have rn: "0 < real n" using n by simp
  have p0: "0 \<le> p" by (simp add: p_def)
  have p1: "p \<le> 1" using k n by (simp add: p_def)
  have a0: "0 \<le> a" using z0 rn by (simp add: a_def)
  have sq: "(z * z) / (4 * real n * real n) = a\<^sup>2"
    by (simp add: a_def power2_eq_square)
  have q0: "0 \<le> p * (1 - p) / real n" using p0 p1 rn by simp
  have "sqrt (a\<^sup>2) \<le> sqrt (p * (1 - p) / real n + a\<^sup>2)"
    using q0 by (intro real_sqrt_le_mono) simp
  with a0 have "a \<le> sqrt (p * (1 - p) / real n + a\<^sup>2)" by simp
  with z0 have "z * a \<le> termo2"
    unfolding termo2_def sq by (simp add: mult_left_mono)
  moreover have za: "z * a = (z * z) / (2 * real n)" by (simp add: a_def)
  ultimately have t2: "(z * z) / (2 * real n) \<le> termo2" by simp
  have d1: "1 \<le> d" using rn by (simp add: d_def)
  have res: "calcular_intervalo_confianca_wilson ppf k n nivel =
      p - (p + (z * z) / (2 * real n) - termo2) / d"
    using n by (simp add: calcular_intervalo_confianca_wilson_def Let_def z_def p_def termo2_def d_def)
  have "(p + (z * z) / (2 * real n) - termo2) / d \<le> p / d"
    using t2 d1 by (intro divide_right_mono) simp_all
  also have "p / d \<le> p"
    using mult_left_mono [OF d1 p0] d1 by (simp add: divide_le_eq)
  finally show "0 \<le> calcular_intervalo_confianca_wilson ppf k n nivel"
    unfolding res by simp
  show "calcular_intervalo_confianca_wilson ppf k n nivel = 0" if "k = 0"
  proof -
    from that have pz: "p = 0" by (simp add: p_def)
    have "termo2 = z * sqrt (a\<^sup>2)" unfolding termo2_def sq pz by simp
    with a0 za have "termo2 = (z * z) / (2 * real n)" by simp
    with pz show ?thesis unfolding res by simp
  qed
qed

lemma traverse_total:
  "(\<And>x. x \<in> set xs \<Longrightarrow> \<exists>y. f x = Inr y) \<Longrightarrow> \<exists>ys. traverse f xs = Inr ys"
proof (induction xs)
  case Nil
  then show ?case by simp
next
  case (Cons x xs)
  from Cons.prems [of x] obtain y where "f x = Inr y" by auto
  moreover from Cons.IH Cons.prems obtain ys where "traverse f xs = Inr ys" by auto
  ultimately show ?case by simp
qed

lemma as_float_total: "\<not> is_texto c \<Longrightarrow> \<exists>v. as_float c = Inr v"
  by (cases c) auto

lemma gt_scalar_total: "\<not> is_texto c \<Longrightarrow> \<exists>b. gt_scalar k c = Inr b"
  by (cases c) auto

lemma colunas_numericas_iff:
  "colunas_numericas df cols \<longleftrightarrow> (\<forall>r\<in>set (rows df). \<forall>c\<in>set cols. \<not> is_texto (r c))"
  by (simp add: colunas_numericas_def list_all_iff)

lemma marcar_expresso_total:
  assumes "\<forall>r\<in>set (rows df). \<not> is_texto (r gene)"
  shows "\<exists>df'. marcar_expresso gene df = Inr df'"
proof -
  have "\<exists>ys. traverse (gt_scalar 0) (column df gene) = Inr ys"
    using assms by (intro traverse_total gt_scalar_total) (auto simp: column_def)
  then show ?thesis by (auto simp: marcar_expresso_def series_gt_def)
qed

lemma marcar_expresso_keeps:
  assumes m: "marcar_expresso gene df = Inr df1" and c: "c \<noteq> expresso gene"
    and n: "\<forall>r\<in>set (rows df). \<not> is_texto (r c)"
  shows "\<forall>r\<in>set (rows df1). \<not> is_texto (r c)"
proof
  fix r assume "r \<in> set (rows df1)"
  then obtain i where i: "i < length (rows df1)" and r: "r = rows df1 ! i"
    by (auto simp: in_set_conv_nth)
  from i marcar_expresso_rows(1) [OF m] have i': "i < length (rows df)" by simp
  from marcar_expresso_rows(3) [OF m i'] c r have "r c = (rows df ! i) c" by auto
  with n i' show "\<not> is_texto (r c)" by simp
qed

lemma binary_cols_total:
  assumes "\<forall>g\<in>set gs. expresso g \<notin> set gs"
    and "\<forall>g\<in>set gs. \<forall>r\<in>set (rows df). \<not> is_texto (r g)"
  shows "\<exists>df'. binary_cols gs df = Inr df'"
  using assms
proof (induction gs arbitrary: df)
  case Nil
  then show ?case by simp
next
  case (Cons gene genes)
  from Cons.prems(2) have "\<forall>r\<in>set (rows df). \<not> is_texto (r gene)" by simp
  from marcar_expresso_total [OF this] obtain df1 where m: "marcar_expresso gene df = Inr df1"
    by blast
  from Cons.prems(1) have side: "\<forall>g\<in>set genes. expresso g \<notin> set genes" by auto
  have "\<forall>g\<in>set genes. \<forall>r\<in>set (rows df1). \<not> is_texto (r g)"
  proof
    fix g assume g: "g \<in> set genes"
    with Cons.prems(1) have "g \<noteq> expresso gene" by auto
    moreover from g Cons.prems(2) have "\<forall>r\<in>set (rows df). \<not> is_texto (r g)" by simp
    ultimately show "\<forall>r\<in>set (rows df1). \<not> is_texto (r g)"
      by (rule marcar_expresso_keeps [OF m])
  qed
  from Cons.IH [OF side this] m show ?case by simp
qed

lemma binary_cols_columns:
  "binary_cols gs df = Inr df' \<Longrightarrow> set (columns df') = set (columns df) \<union> expresso ` set gs"
proof (induction gs arbitrary: df)
  case Nil
  then show ?case by simp
next
  case (Cons gene genes)
  from Cons.prems obtain df1 where m: "marcar_expresso gene df = Inr df1"
    and rest: "binary_cols genes df1 = Inr df'"
    by (auto split: sum.splits)
  from Cons.IH [OF rest] marcar_expresso_rows(2) [OF m] show ?case by auto
qed

lemma series_and_total:
  assumes "length a = length b" and "\<forall>i<length a. \<exists>x y. a ! i = Flag x \<and> b ! i = Flag y"
  shows "\<exists>r. series_and a b = Inr r"
  unfolding series_and_def
proof (rule traverse_total)
  fix p assume "p \<in> set (zip a b)"
  then obtain i where "i < length a" "p = (a ! i, b ! i)"
    using assms(1) by (auto simp: in_set_conv_nth)
  with assms(2) show "\<exists>y. and_cell p = Inr y" by auto
qed

lemma todos_expressos_total:
  assumes "length acc = length (rows df)"
    and "\<forall>i<length (rows df). \<exists>a. acc ! i = Flag a"
    and "\<forall>c\<in>set cs. c \<in> set (columns df) \<and> (\<forall>i<length (rows df). \<exists>b. (rows df ! i) c = Flag b)"
  shows "\<exists>g. todos_expressos df acc cs = Inr g"
  using assms
proof (induction cs arbitrary: acc)
  case Nil
  then show ?case by simp
next
  case (Cons c cs)
  from Cons.prems(3) have c: "c \<in> set (columns df)"
    and fl: "\<forall>i<length (rows df). \<exists>b. (rows df ! i) c = Flag b" by auto
  have col: "column_of df c = Inr (column df c)" using c by (simp add: column_of_def)
  have len: "length acc = length (column df c)" using Cons.prems(1) by simp
  have "\<forall>i<length acc. \<exists>x y. acc ! i = Flag x \<and> column df c ! i = Flag y"
    using Cons.prems(1,2) fl by simp
  from series_and_total [OF len this] obtain acc' where a: "series_and acc (column df c) = Inr acc'"
    by blast
  note sa = series_and_nth [OF a len]
  from sa(1) Cons.prems(1) have l': "length acc' = length (rows df)" by simp
  have f': "\<forall>i<length (rows df). \<exists>a. acc' ! i = Flag a"
  proof (intro allI impI)
    fix i assume "i < length (rows df)"
    with Cons.prems(1) have "i < length acc" by simp
    from sa(2) [OF this] show "\<exists>a. acc' ! i = Flag a" by blast
  qed
  from Cons.prems(3) have rest: "\<forall>c\<in>set cs. c \<in> set (columns df) \<and>
      (\<forall>i<length (rows df). \<exists>b. (rows df ! i) c = Flag b)" by simp
  from Cons.IH [OF l' f' rest] col a show ?case by simp
qed

lemma g_all_total:
  assumes "\<forall>c\<in>set (c0 # cs). c \<in> set (columns df) \<and>
             (\<forall>i<length (rows df). \<exists>b. (rows df ! i) c = Flag b)"
  shows "\<exists>g. g_all df (c0 # cs) = Inr g"
proof -
  from assms have c: "c0 \<in> set (columns df)" by simp
  then have col: "column_of df c0 = Inr (column df c0)" by (simp add: column_of_def)
  have "\<exists>g. todos_expressos df (column df c0) cs = Inr g"
    using assms by (intro todos_expressos_total) auto
  with col show ?thesis by (simp add: g_all_def)
qed

lemma grupo_vs_nao_total [simp]:
  "col \<in> set (columns df) \<Longrightarrow>
   grupo_vs_nao name col a b df = Inr (put_column name (np_where (column df col) a b) df)"
  by (simp add: grupo_vs_nao_def column_of_def)

lemma expresso_cols:
  "set [''PRG2_expresso'', ''EPX_expresso'', ''CLC_expresso'', ''IL5RA_expresso''] =
   expresso ` set GENES_INTERESSE"
  by (simp add: GENES_INTERESSE_def expresso_def)

lemma definir_grupos_comparacao_eval:
  assumes l: "colunas_expresso GENES_INTERESSE df = Inr (Some df1)"
    and g: "g_all df1 [''PRG2_expresso'', ''EPX_expresso'', ''CLC_expresso'', ''IL5RA_expresso''] = Inr g"
    and c: "expresso ` set GENES_INTERESSE \<subseteq> set (columns df1)"
  shows "\<exists>df'. definir_grupos_comparacao df = Inr (Some df')"
proof -
  from c have in_cols: "''PRG2_expresso'' \<in> set (columns df1)" "''EPX_expresso'' \<in> set (columns df1)"
    "''CLC_expresso'' \<in> set (columns df1)" "''IL5RA_expresso'' \<in> set (columns df1)"
    unfolding expresso_cols [symmetric] by simp_all
  define d0 where "d0 = put_column ''grupo_4_vs_outros''
                     (np_where g ''CLC_EPX_IL5RA_PRG2'' ''Demais'') df1"
  have c0: "set (columns df1) \<subseteq> set (columns d0)" by (auto simp: d0_def)
  define d1 where "d1 = put_column ''grupo_PRG2_vs_Nao''
      (np_where (column d0 ''PRG2_expresso'') (Expressa ''PRG2'') (Nao_Expressa ''PRG2'')) d0"
  define d2 where "d2 = put_column ''grupo_CLC_vs_Nao''
      (np_where (column d1 ''CLC_expresso'') (Expressa ''CLC'') (Nao_Expressa ''CLC'')) d1"
  define d3 where "d3 = put_column ''grupo_IL5RA_vs_Nao''
      (np_where (column d2 ''IL5RA_expresso'') (Expressa ''IL5RA'') (Nao_Expressa ''IL5RA'')) d2"
  define d4 where "d4 = put_column ''grupo_EPX_vs_Nao''
      (np_where (column d3 ''EPX_expresso'') (Expressa ''EPX'') (Nao_Expressa ''EPX'')) d3"
  have c1: "set (columns d0) \<subseteq> set (columns d1)" by (auto simp: d1_def)
  have c2: "set (columns d1) \<subseteq> set (columns d2)" by (auto simp: d2_def)
  have c3: "set (columns d2) \<subseteq> set (columns d3)" by (auto simp: d3_def)
  have m0: "''PRG2_expresso'' \<in> set (columns d0)" using in_cols(1) c0 by blast
  have m1: "''CLC_expresso'' \<in> set (columns d1)" using in_cols(3) c0 c1 by blast
  have m2: "''IL5RA_expresso'' \<in> set (columns d2)" using in_cols(4) c0 c1 c2 by blast
  have m3: "''EPX_expresso'' \<in> set (columns d3)" using in_cols(2) c0 c1 c2 c3 by blast
  have s1: "grupo_vs_nao ''grupo_PRG2_vs_Nao'' ''PRG2_expresso''
      (Expressa ''PRG2'') (Nao_Expressa ''PRG2'') d0 = Inr d1"
    unfolding d1_def using m0 by (rule grupo_vs_nao_total)
  have s2: "grupo_vs_nao ''grupo_CLC_vs_Nao'' ''CLC_expresso''
      (Expressa ''CLC'') (Nao_Expressa ''CLC'') d1 = Inr d2"
    unfolding d2_def using m1 by (rule grupo_vs_nao_total)
  have s3: "grupo_vs_nao ''grupo_IL5RA_vs_Nao'' ''IL5RA_expresso''
      (Expressa ''IL5RA'') (Nao_Expressa ''IL5RA'') d2 = Inr d3"
    unfolding d3_def using m2 by (rule grupo_vs_nao_total)
  have s4: "grupo_vs_nao ''grupo_EPX_vs_Nao'' ''EPX_expresso''
      (Expressa ''EPX'') (Nao_Expressa ''EPX'') d3 = Inr d4"
    unfolding d4_def using m3 by (rule grupo_vs_nao_total)
  have "definir_grupos_comparacao df = Inr (Some d4)"
    by (simp add: definir_grupos_comparacao_def l g d0_def [symmetric] s1 s2 s3 s4)
  then show ?thesis by blast
qed


text \<open>
  On a table that has the four gene columns, all numeric, the function returns a table of
  groups: it neither gives up nor raises.
\<close>

lemma definir_grupos_comparacao_total:
  assumes pres: "set GENES_INTERESSE \<subseteq> set (columns df)"
    and num: "colunas_numericas df GENES_INTERESSE"
  shows "\<exists>df'. definir_grupos_comparacao df = Inr (Some df')"
proof -
  from num have "\<forall>g\<in>set GENES_INTERESSE. \<forall>r\<in>set (rows df). \<not> is_texto (r g)"
    by (auto simp: colunas_numericas_iff)
  from binary_cols_total [OF genes_side(1) this] obtain df1
    where b: "binary_cols GENES_INTERESSE df = Inr df1" by blast
  with colunas_expresso_binary_cols [OF pres]
  have l: "colunas_expresso GENES_INTERESSE df = Inr (Some df1)" by simp
  note bc = binary_cols_rows [OF b genes_side(1)]
  from bc have len: "length (rows df1) = length (rows df)" by simp
  from binary_cols_columns [OF b]
  have cols: "expresso ` set GENES_INTERESSE \<subseteq> set (columns df1)" by simp
  have fl: "\<exists>b. (rows df1 ! i) (expresso g) = Flag b"
    if "g \<in> set GENES_INTERESSE" "i < length (rows df1)" for g i
  proof -
    from that len have "i < length (rows df)" by simp
    with bc that(1) obtain b where "(rows df1 ! i) (expresso g) = Flag b" by blast
    then show ?thesis by blast
  qed
  have flags: "\<forall>c\<in>set [''PRG2_expresso'', ''EPX_expresso'', ''CLC_expresso'', ''IL5RA_expresso''].
      c \<in> set (columns df1) \<and> (\<forall>i<length (rows df1). \<exists>b. (rows df1 ! i) c = Flag b)"
    unfolding expresso_cols using cols fl by blast
  from g_all_total [OF flags] obtain g
    where g: "g_all df1 [''PRG2_expresso'', ''EPX_expresso'', ''CLC_expresso'', ''IL5RA_expresso''] = Inr g"
    by blast
  from l g cols show ?thesis by (rule definir_grupos_comparacao_eval)
qed

lemma grupos_de_expressao_total:
  assumes "genes_presentes df \<noteq> []" and "colunas_numericas df (genes_presentes df)"
  shows "\<exists>df'. grupos_de_expressao df = Inr (Some df')"
proof -
  from assms(2) have "\<forall>g\<in>set (genes_presentes df). \<forall>r\<in>set (rows df). \<not> is_texto (r g)"
    by (auto simp: colunas_numericas_iff)
  from binary_cols_total [OF genes_side(2) this] assms(1) show ?thesis
    by (auto simp: grupos_de_expressao_def)
qed

text \<open>
  C1. In both scripts the boolean column \<open>gene_expresso\<close> of every sample holds
  \<open>value > 0\<close> for every gene column present: a positive value is expressed, the value 0
  is not, a missing value is not; no other threshold occurs. The gene's own column and the
  number of samples are unchanged. The first script goes through when at least one gene is
  a column and the gene columns present are numeric, the second when all four genes are
  numeric columns.
\<close>

theorem expresso_iff_positive:
  "(genes_presentes df \<noteq> [] \<and> colunas_numericas df (genes_presentes df) \<longrightarrow>
      (\<exists>df'. grupos_de_expressao df = Inr (Some df') \<and>
         length (rows df') = length (rows df) \<and>
         (\<forall>gene\<in>set (genes_presentes df). \<forall>i<length (rows df).
            (rows df' ! i) gene = (rows df ! i) gene \<and>
            (\<forall>x. (rows df ! i) gene = Num x \<longrightarrow> (rows df' ! i) (expresso gene) = Flag (0 < x)) \<and>
            ((rows df ! i) gene = Num 0 \<longrightarrow> (rows df' ! i) (expresso gene) = Flag False) \<and>
            ((rows df ! i) gene = NaN \<longrightarrow> (rows df' ! i) (expresso gene) = Flag False)))) \<and>
   (set GENES_INTERESSE \<subseteq> set (columns df) \<and> colunas_numericas df GENES_INTERESSE \<longrightarrow>
      (\<exists>df'. definir_grupos_comparacao df = Inr (Some df') \<and>
         length (rows df') = length (rows df) \<and>
         (\<forall>gene\<in>set GENES_INTERESSE. \<forall>i<length (rows df).
            (rows df' ! i) gene = (rows df ! i) gene \<and>
            (\<forall>x. (rows df ! i) gene = Num x \<longrightarrow> (rows df' ! i) (expresso gene) = Flag (0 < x)) \<and>
            ((rows df ! i) gene = Num 0 \<longrightarrow> (rows df' ! i) (expresso gene) = Flag False) \<and>
            ((rows df ! i) gene = NaN \<longrightarrow> (rows df' ! i) (expresso gene) = Flag False))))"
proof (intro conjI impI)
  assume a: "genes_presentes df \<noteq> [] \<and> colunas_numericas df (genes_presentes df)"
  then obtain df' where d: "grupos_de_expressao df = Inr (Some df')"
    using grupos_de_expressao_total by blast
  have len: "length (rows df') = length (rows df)"
    using d by (auto simp: grupos_de_expressao_def split: if_splits sum.splits
        dest: binary_cols_rows [OF _ genes_side(2)])
  have "\<forall>gene\<in>set (genes_presentes df). \<forall>i<length (rows df).
            (rows df' ! i) gene = (rows df ! i) gene \<and>
            (\<forall>x. (rows df ! i) gene = Num x \<longrightarrow> (rows df' ! i) (expresso gene) = Flag (0 < x)) \<and>
            ((rows df ! i) gene = Num 0 \<longrightarrow> (rows df' ! i) (expresso gene) = Flag False) \<and>
            ((rows df ! i) gene = NaN \<longrightarrow> (rows df' ! i) (expresso gene) = Flag False)"
  proof (intro ballI allI impI)
    fix gene i assume g: "gene \<in> set (genes_presentes df)" and i: "i < length (rows df)"
    from expresso_iff_positive_rows [of df df' gene i] d g i
    show "(rows df' ! i) gene = (rows df ! i) gene \<and>
            (\<forall>x. (rows df ! i) gene = Num x \<longrightarrow> (rows df' ! i) (expresso gene) = Flag (0 < x)) \<and>
            ((rows df ! i) gene = Num 0 \<longrightarrow> (rows df' ! i) (expresso gene) = Flag False) \<and>
            ((rows df ! i) gene = NaN \<longrightarrow> (rows df' ! i) (expresso gene) = Flag False)"
      by simp
  qed
  with d len show "\<exists>df'. grupos_de_expressao df = Inr (Some df') \<and>
         length (rows df') = length (rows df) \<and>
         (\<forall>gene\<in>set (genes_presentes df). \<forall>i<length (rows df).
            (rows df' ! i) gene = (rows df ! i) gene \<and>
            (\<forall>x. (rows df ! i) gene = Num x \<longrightarrow> (rows df' ! i) (expresso gene) = Flag (0 < x)) \<and>
            ((rows df ! i) gene = Num 0 \<longrightarrow> (rows df' ! i) (expresso gene) = Flag False) \<and>
            ((rows df ! i) gene = NaN \<longrightarrow> (rows df' ! i) (expresso gene) = Flag False))"
    by blast
next
  assume a: "set GENES_INTERESSE \<subseteq> set (columns df) \<and> colunas_numericas df GENES_INTERESSE"
  then obtain df' where d: "definir_grupos_comparacao df = Inr (Some df')"
    using definir_grupos_comparacao_total by blast
  note len = definir_grupos_comparacao_length [OF d]
  have "\<forall>gene\<in>set GENES_INTERESSE. \<forall>i<length (rows df).
            (rows df' ! i) gene = (rows df ! i) gene \<and>
            (\<forall>x. (rows df ! i) gene = Num x \<longrightarrow> (rows df' ! i) (expresso gene) = Flag (0 < x)) \<and>
            ((rows df ! i) gene = Num 0 \<longrightarrow> (rows df' ! i) (expresso gene) = Flag False) \<and>
            ((rows df ! i) gene = NaN \<longrightarrow> (rows df' ! i) (expresso gene) = Flag False)"
  proof (intro ballI allI impI)
    fix gene i assume g: "gene \<in> set GENES_INTERESSE" and i: "i < length (rows df)"
    from expresso_iff_positive_rows [of df df' gene i] d g i
    show "(rows df' ! i) gene = (rows df ! i) gene \<and>
            (\<forall>x. (rows df ! i) gene = Num x \<longrightarrow> (rows df' ! i) (expresso gene) = Flag (0 < x)) \<and>
            ((rows df ! i) gene = Num 0 \<longrightarrow> (rows df' ! i) (expresso gene) = Flag False) \<and>
            ((rows df ! i) gene = NaN \<longrightarrow> (rows df' ! i) (expresso gene) = Flag False)"
      by simp
  qed
  with d len show "\<exists>df'. definir_grupos_comparacao df = Inr (Some df') \<and>
         length (rows df') = length (rows df) \<and>
         (\<forall>gene\<in>set GENES_INTERESSE. \<forall>i<length (rows df).
            (rows df' ! i) gene = (rows df ! i) gene \<and>
            (\<forall>x. (rows df ! i) gene = Num x \<longrightarrow> (rows df' ! i) (expresso gene) = Flag (0 < x)) \<and>
            ((rows df ! i) gene = Num 0 \<longrightarrow> (rows df' ! i) (expresso gene) = Flag False) \<and>
            ((rows df ! i) gene = NaN \<longrightarrow> (rows df' ! i) (expresso gene) = Flag False))"
    by blast
qed


lemma amostras_numericas:
  "set GENES_INTERESSE \<subseteq> set (columns amostras)"
  "colunas_numericas amostras GENES_INTERESSE"
  "genes_presentes amostras = GENES_INTERESSE"
  by (simp_all add: GENES_INTERESSE_def genes_presentes_def genes_of_interest_def
      colunas_numericas_def amostras_def row_of_def)

theorem expresso_iff_positive_witness:
  "genes_presentes amostras \<noteq> [] \<and> colunas_numericas amostras (genes_presentes amostras) \<and>
   set GENES_INTERESSE \<subseteq> set (columns amostras) \<and> colunas_numericas amostras GENES_INTERESSE \<and>
   grupos_de_expressao amostras = Inr (Some amostras_s2) \<and>
   definir_grupos_comparacao amostras = Inr (Some amostras_s3) \<and>
   (rows amostras ! 0) ''CLC'' = Num 0 \<and>
   (rows amostras_s2 ! 0) (expresso ''CLC'') = Flag False \<and>
   (rows amostras ! 1) ''EPX'' = Num 5 \<and>
   (rows amostras_s3 ! 1) (expresso ''EPX'') = Flag True \<and>
   (rows amostras ! 2) ''EPX'' = NaN \<and>
   (rows amostras_s3 ! 2) (expresso ''EPX'') = Flag False"
proof -
  have h1: "genes_presentes amostras \<noteq> [] \<and> colunas_numericas amostras (genes_presentes amostras)"
    using amostras_numericas by (simp add: GENES_INTERESSE_def)
  have h2: "set GENES_INTERESSE \<subseteq> set (columns amostras) \<and> colunas_numericas amostras GENES_INTERESSE"
    using amostras_numericas by simp
  have s2: "grupos_de_expressao amostras = Inr (Some amostras_s2)"
    using amostras_s2 by (auto simp: amostras_s2_def out_frame_def)
  have s3: "definir_grupos_comparacao amostras = Inr (Some amostras_s3)"
    using amostras_definir by (auto simp: amostras_s3_def out_frame_def)
  have g: "''CLC'' \<in> set (genes_presentes amostras)" "''EPX'' \<in> set GENES_INTERESSE"
    by (simp_all add: amostras_numericas GENES_INTERESSE_def)
  have n: "0 < length (rows amostras)" "1 < length (rows amostras)" "2 < length (rows amostras)"
    by (simp_all add: amostras_def)
  have v: "(rows amostras ! 0) ''CLC'' = Num 0" "(rows amostras ! 1) ''EPX'' = Num 5"
    "(rows amostras ! 2) ''EPX'' = NaN"
    by (simp_all add: amostras_def row_of_def)
  note t = expresso_iff_positive [of amostras]
  from t h1 s2 have p2: "\<forall>gene\<in>set (genes_presentes amostras). \<forall>i<length (rows amostras).
            (\<forall>x. (rows amostras ! i) gene = Num x \<longrightarrow>
                 (rows amostras_s2 ! i) (expresso gene) = Flag (0 < x))"
    by auto
  from t h2 s3 have p3: "\<forall>gene\<in>set GENES_INTERESSE. \<forall>i<length (rows amostras).
            (\<forall>x. (rows amostras ! i) gene = Num x \<longrightarrow>
                 (rows amostras_s3 ! i) (expresso gene) = Flag (0 < x)) \<and>
            ((rows amostras ! i) gene = NaN \<longrightarrow> (rows amostras_s3 ! i) (expresso gene) = Flag False)"
    by auto
  from p2 g(1) n(1) v(1) have a: "(rows amostras_s2 ! 0) (expresso ''CLC'') = Flag False" by auto
  from p3 g(2) n(2) v(2) have b: "(rows amostras_s3 ! 1) (expresso ''EPX'') = Flag True" by auto
  from p3 g(2) n(3) v(3) have c: "(rows amostras_s3 ! 2) (expresso ''EPX'') = Flag False" by auto
  from h1 h2 s2 s3 v a b c show ?thesis by simp
qed

text \<open>
  C5. On a table with the four genes as numeric columns, the presence split of a gene
  labels every sample with exactly one of the two cohorts: \<open>Expressa gene\<close> when the value
  is positive, \<open>Nao Expressa gene\<close> otherwise (the value 0 and a missing value included). No
  sample is dropped, none is in both cohorts, and the two cohort sizes add up to the number
  of samples.
\<close>

theorem presenca_particao:
  assumes "set GENES_INTERESSE \<subseteq> set (columns df)" and "colunas_numericas df GENES_INTERESSE"
    and "gene \<in> set GENES_INTERESSE"
  shows "\<exists>df'. definir_grupos_comparacao df = Inr (Some df') \<and>
    length (rows df') = length (rows df) \<and>
    (\<forall>i<length (rows df).
       ((rows df' ! i) (grupo_de gene) = Txt (Expressa gene) \<or>
        (rows df' ! i) (grupo_de gene) = Txt (Nao_Expressa gene)) \<and>
       \<not> ((rows df' ! i) (grupo_de gene) = Txt (Expressa gene) \<and>
          (rows df' ! i) (grupo_de gene) = Txt (Nao_Expressa gene)) \<and>
       (\<forall>x. (rows df ! i) gene = Num x \<longrightarrow>
          ((rows df' ! i) (grupo_de gene) = Txt (Expressa gene)) = (0 < x)) \<and>
       ((rows df ! i) gene = NaN \<longrightarrow>
          (rows df' ! i) (grupo_de gene) = Txt (Nao_Expressa gene))) \<and>
    length [r\<leftarrow>rows df'. r (grupo_de gene) = Txt (Expressa gene)] +
    length [r\<leftarrow>rows df'. r (grupo_de gene) = Txt (Nao_Expressa gene)] = length (rows df)"
proof -
  from definir_grupos_comparacao_total [OF assms(1,2)] obtain df'
    where d: "definir_grupos_comparacao df = Inr (Some df')" by blast
  from presenca_particao_rows [OF d assms(3)] d show ?thesis by blast
qed

theorem presenca_particao_witness:
  "set GENES_INTERESSE \<subseteq> set (columns amostras) \<and> colunas_numericas amostras GENES_INTERESSE \<and>
   ''CLC'' \<in> set GENES_INTERESSE \<and>
   definir_grupos_comparacao amostras = Inr (Some amostras_s3) \<and>
   length (rows amostras_s3) = 3 \<and>
   (rows amostras ! 0) ''CLC'' = Num 0 \<and>
   (rows amostras_s3 ! 0) (grupo_de ''CLC'') = Txt (Nao_Expressa ''CLC'') \<and>
   (rows amostras ! 1) ''CLC'' = Num 7 \<and>
   (rows amostras_s3 ! 1) (grupo_de ''CLC'') = Txt (Expressa ''CLC'') \<and>
   length [r\<leftarrow>rows amostras_s3. r (grupo_de ''CLC'') = Txt (Expressa ''CLC'')] +
   length [r\<leftarrow>rows amostras_s3. r (grupo_de ''CLC'') = Txt (Nao_Expressa ''CLC'')] = 3"
proof -
  have s3: "definir_grupos_comparacao amostras = Inr (Some amostras_s3)"
    using amostras_definir by (auto simp: amostras_s3_def out_frame_def)
  have g: "''CLC'' \<in> set GENES_INTERESSE" by (simp add: GENES_INTERESSE_def)
  have n: "length (rows amostras) = 3" by (simp add: amostras_def)
  have v: "(rows amostras ! 0) ''CLC'' = Num 0" "(rows amostras ! 1) ''CLC'' = Num 7"
    by (simp_all add: amostras_def row_of_def)
  from presenca_particao [OF amostras_numericas(1,2) g] s3
  have p: "length (rows amostras_s3) = length (rows amostras) \<and>
    (\<forall>i<length (rows amostras).
       ((rows amostras_s3 ! i) (grupo_de ''CLC'') = Txt (Expressa ''CLC'') \<or>
        (rows amostras_s3 ! i) (grupo_de ''CLC'') = Txt (Nao_Expressa ''CLC'')) \<and>
       (\<forall>x. (rows amostras ! i) ''CLC'' = Num x \<longrightarrow>
          ((rows amostras_s3 ! i) (grupo_de ''CLC'') = Txt (Expressa ''CLC'')) = (0 < x))) \<and>
    length [r\<leftarrow>rows amostras_s3. r (grupo_de ''CLC'') = Txt (Expressa ''CLC'')] +
    length [r\<leftarrow>rows amostras_s3. r (grupo_de ''CLC'') = Txt (Nao_Expressa ''CLC'')] =
      length (rows amostras)"
    by auto
  from p n have a: "length (rows amostras_s3) = 3" by simp
  from p have per: "((rows amostras_s3 ! i) (grupo_de ''CLC'') = Txt (Expressa ''CLC'') \<or>
        (rows amostras_s3 ! i) (grupo_de ''CLC'') = Txt (Nao_Expressa ''CLC'')) \<and>
       (\<forall>x. (rows amostras ! i) ''CLC'' = Num x \<longrightarrow>
          ((rows amostras_s3 ! i) (grupo_de ''CLC'') = Txt (Expressa ''CLC'')) = (0 < x))"
    if "i < length (rows amostras)" for i
    using that by blast
  from per [of 0] n v have b: "(rows amostras_s3 ! 0) (grupo_de ''CLC'') = Txt (Nao_Expressa ''CLC'')"
    by auto
  from per [of 1] n v have c: "(rows amostras_s3 ! 1) (grupo_de ''CLC'') = Txt (Expressa ''CLC'')"
    by auto
  from p n have d: "length [r\<leftarrow>rows amostras_s3. r (grupo_de ''CLC'') = Txt (Expressa ''CLC'')] +
   length [r\<leftarrow>rows amostras_s3. r (grupo_de ''CLC'') = Txt (Nao_Expressa ''CLC'')] = 3"
    by simp
  from amostras_numericas(1,2) s3 g a v b c d show ?thesis by simp
qed









lemma series_sum_total:
  "(\<And>c. c \<in> set s \<Longrightarrow> \<not> is_texto c) \<Longrightarrow> \<exists>v. series_sum s = Inr v"
proof (induction s)
  case Nil
  then show ?case by simp
next
  case (Cons c s)
  from Cons.prems [of c] as_float_total obtain v where "as_float c = Inr v" by auto
  moreover from Cons.IH Cons.prems obtain t where "series_sum s = Inr t" by auto
  ultimately show ?case by simp
qed

lemma linha_cox_total:
  assumes "col_tempo \<in> set (columns group_df)" "col_evento \<in> set (columns group_df)"
    and "gene \<in> set (columns group_df)"
    and "colunas_numericas group_df [col_evento]"
  shows "\<exists>l. linha_cox cph group_df group_name gene = Inr (Some l)"
proof -
  have "\<And>c. c \<in> set (map (\<lambda>r. r col_evento) (linhas_cox group_df gene)) \<Longrightarrow> \<not> is_texto c"
    using assms(4) by (auto simp: colunas_numericas_def linhas_cox_def list_all_iff)
  from series_sum_total [OF this] obtain v where
    "series_sum (map (\<lambda>r. r col_evento) (linhas_cox group_df gene)) = Inr v" by blast
  with assms(1-3) show ?thesis
    by (simp add: linha_cox_def Let_def column_def split: sum.splits)
qed

text \<open>
  C7. For one group and one gene, on a table that has the time, event and gene columns
  and whose event column holds no text, the loop body returns a row. The Cox model is
  fitted, and the hazard ratio, its 95\% interval and the p-value are put in the row, only
  when more than 10 rows have time, event and expression present and the events of these
  rows sum to more than 1 (at least 2 events, the event being 0 or 1). With 10 rows or
  fewer, or with at most one event, the row says "insufficient data" and carries no
  hazard ratio and no p-value.
\<close>

theorem cox_dados_suficientes:
  assumes "col_tempo \<in> set (columns group_df)" "col_evento \<in> set (columns group_df)"
    and "gene \<in> set (columns group_df)"
    and "colunas_numericas group_df [col_evento]"
  shows "\<exists>l. linha_cox cph group_df group_name gene = Inr (Some l) \<and>
        (hazard_ratio l \<noteq> None \<or> valor l \<noteq> None \<longrightarrow>
           10 < length (linhas_cox group_df gene) \<and>
           (\<exists>eventos summary.
              series_sum (map (\<lambda>r. r col_evento) (linhas_cox group_df gene)) = Inr eventos \<and>
              1 < eventos \<and>
              cph \<lparr>columns = [col_tempo, col_evento, gene], rows = linhas_cox group_df gene\<rparr>
                  gene = Inr summary \<and>
              valor l = Some (p_cox summary) \<and>
              hazard_ratio l = Some (exp_coef summary) \<and>
              hr_ic_95 l = Intervalo (exp_coef_lower_95 summary) (exp_coef_upper_95 summary))) \<and>
         (length (linhas_cox group_df gene) \<le> 10 \<or>
          (\<exists>eventos. series_sum (map (\<lambda>r. r col_evento) (linhas_cox group_df gene)) = Inr eventos \<and>
                     eventos \<le> 1) \<longrightarrow>
            valor l = None \<and> hazard_ratio l = None \<and> hr_ic_95 l = Dados_insuficientes_cox) \<and>
         ((\<forall>r\<in>set (linhas_cox group_df gene). r col_evento = Num 0 \<or> r col_evento = Num 1) \<longrightarrow>
            series_sum (map (\<lambda>r. r col_evento) (linhas_cox group_df gene)) =
              Inr (real (length [r\<leftarrow>linhas_cox group_df gene. r col_evento = Num 1])))"
proof -
  from linha_cox_total [OF assms] obtain l
    where l: "linha_cox cph group_df group_name gene = Inr (Some l)" by blast
  from cox_dados_suficientes_rows [OF l] l show ?thesis by blast
qed

lemma grupo_CLC_colunas:
  "col_tempo \<in> set (columns grupo_CLC)" "col_evento \<in> set (columns grupo_CLC)"
  "''CLC'' \<in> set (columns grupo_CLC)" "colunas_numericas grupo_CLC [col_evento]"
  "col_tempo \<in> set (columns grupo_CLC_faltante)" "col_evento \<in> set (columns grupo_CLC_faltante)"
  "''CLC'' \<in> set (columns grupo_CLC_faltante)" "colunas_numericas grupo_CLC_faltante [col_evento]"
  by (simp_all add: grupo_CLC_def grupo_CLC_faltante_def col_tempo_def col_evento_def
      colunas_numericas_def row_of_def)

theorem cox_dados_suficientes_witness:
  "col_tempo \<in> set (columns grupo_CLC) \<and> col_evento \<in> set (columns grupo_CLC) \<and>
   ''CLC'' \<in> set (columns grupo_CLC) \<and> colunas_numericas grupo_CLC [col_evento] \<and>
   linha_cox cph_exemplo grupo_CLC ''CLC'' ''CLC'' =
     Inr (Some \<lparr>grupo_expressao = ''CLC'', gene_analisado = ''CLC'', valor = Some (1 / 20),
                hazard_ratio = Some 2, hr_ic_95 = Intervalo 1 4\<rparr>) \<and>
   10 < length (linhas_cox grupo_CLC ''CLC'') \<and>
   linha_cox cph_exemplo grupo_CLC_faltante ''CLC'' ''CLC'' =
     Inr (Some \<lparr>grupo_expressao = ''CLC'', gene_analisado = ''CLC'', valor = None,
                hazard_ratio = None, hr_ic_95 = Dados_insuficientes_cox\<rparr>) \<and>
   length (linhas_cox grupo_CLC_faltante ''CLC'') = 10"
proof -
  from cox_dados_suficientes [OF grupo_CLC_colunas(1-4), of cph_exemplo "''CLC''"]
    grupo_CLC_linha
  have a: "10 < length (linhas_cox grupo_CLC ''CLC'')" by auto
  have b: "length (linhas_cox grupo_CLC_faltante ''CLC'') = 10"
    by (simp add: linhas_cox_def grupo_CLC_faltante_def col_tempo_def col_evento_def row_of_def)
  from a b grupo_CLC_linha grupo_CLC_faltante_linha grupo_CLC_colunas show ?thesis by simp
qed

end
